theory Spec2Isabelle
  imports Complex_Main "HOL-Library.Char_ord" "HOL-Library.List_Lexorder" "HOL-Library.Multiset"
begin

section \<open>Values, errors and backend calls\<close>

text \<open>
  The charts of \<^verbatim>\<open>fancy_matplotlib\<close> are Python objects whose methods call
  \<^verbatim>\<open>matplotlib.pyplot\<close>. The model keeps the object as a record, every exception as
  a value, and every pyplot call as an entry of a trace, in the order the calls are made.

  Numbers of the input data are Python ints (the tick computation passes them to
  \<^verbatim>\<open>range\<close>, which accepts nothing else). Float results (bar widths, grid
  positions, bin edges) are the rationals that the float expressions denote; rounding is
  not modelled. The pyplot primitives themselves are taken as calls that return.
\<close>

datatype error =
  InvalidInputException | NotImplementedError | TypeError | ValueError | IndexError
  | AttributeError

text \<open>An element of \<^verbatim>\<open>x_data\<close>: a number, a label, or (for histograms) one
  sequence of samples, a Python list of numbers.\<close>

datatype xval = XInt int | XStr string | XSeq "rat list"

text \<open>An element of \<^verbatim>\<open>y_data\<close>: a number, a nested Python list, or a nested
  numpy array.\<close>

datatype yval = YNum int | YList "int list" | YArray "int list"

type_synonym colour = "rat \<times> rat \<times> rat"

datatype ylabel = Str int | StrPercent int

datatype axes = Subplot nat

text \<open>The pyplot calls, with the arguments the source passes:
  \<^item> \<open>Rc\<close>: \<^verbatim>\<open>plt.rc(group, key=value)\<close>;
  \<^item> \<open>NewSubplot n\<close>: \<^verbatim>\<open>plt.subplot(n)\<close>;
  \<^item> \<open>SpineOff side\<close>: \<^verbatim>\<open>ax.spines[side].set_visible(False)\<close>;
  \<^item> \<open>Yticks\<close>, \<open>Xticks\<close>: positions and labels;
  \<^item> \<open>GridLine xs ys\<close>: \<^verbatim>\<open>plt.plot(xs, ys, "--", lw=0.5, color="black", alpha=0.3)\<close>;
  \<^item> \<open>Line xs y c l\<close>: \<^verbatim>\<open>plt.plot(xs, y, lw=1, color=c, label=l)\<close>;
  \<^item> \<open>Bar ps hs c l\<close>: \<^verbatim>\<open>plt.bar(ps, hs, lw=1, color=c, label=l)\<close>;
  \<^item> \<open>BarOfWidth ps h w c l\<close>: \<^verbatim>\<open>plt.bar(ps, h, lw=1, width=w, color=c, label=l)\<close>;
  \<^item> \<open>Hist xs n cs\<close>: \<^verbatim>\<open>plt.hist(xs, bins=n, color=cs, edgecolor='black', lw=0.5)\<close>;
  \<^item> \<open>Title\<close>, \<open>Xlabel\<close>, \<open>Ylabel\<close>, \<open>Legend\<close>, \<open>Show\<close>.\<close>

datatype plt_call =
    Rc string string string
  | NewSubplot nat
  | SpineOff string
  | Yticks "int list" "ylabel list"
  | Xticks "rat list" "xval list"
  | GridLine "rat list" "int list"
  | Line "xval list" yval colour "string option"
  | Bar "xval list" "yval list option" colour "string option"
  | BarOfWidth "rat list" yval rat colour "string option"
  | Hist "xval list" int "colour list"
  | Title string
  | Xlabel string
  | Ylabel string
  | Legend
  | Show

section \<open>The palette\<close>

definition tableau20_rgb :: "(int \<times> int \<times> int) list" where
  "tableau20_rgb =
    [(31, 119, 180), (174, 199, 232), (255, 127, 14), (255, 187, 120),
     (44, 160, 44), (152, 223, 138), (214, 39, 40), (255, 152, 150),
     (148, 103, 189), (197, 176, 213), (140, 86, 75), (196, 156, 148),
     (227, 119, 194), (247, 182, 210), (127, 127, 127), (199, 199, 199),
     (188, 189, 34), (219, 219, 141), (23, 190, 207), (158, 218, 229)]"

text \<open>The module-level loop that scales every component by 255.\<close>

definition tableau20 :: "colour list" where
  "tableau20 = map (\<lambda>(r, g, b). (of_int r / 255, of_int g / 255, of_int b / 255)) tableau20_rgb"

text \<open>\<^verbatim>\<open>tableau20[index]\<close> for an index that \<^verbatim>\<open>enumerate\<close> or
  \<^verbatim>\<open>range\<close> produced (never negative).\<close>

definition tableau20_at :: "nat \<Rightarrow> error + colour" where
  "tableau20_at i = (if i < length tableau20 then Inr (tableau20 ! i) else Inl IndexError)"

definition DEFAULT_BAR_WIDTH :: rat where
  "DEFAULT_BAR_WIDTH = 8 / 10"

section \<open>Python and numpy built-ins used by the charts\<close>

text \<open>\<^verbatim>\<open><\<close> on the values of \<^verbatim>\<open>x_data\<close>: numbers with numbers, strings with
  strings and lists with lists (both lexicographic); anything else is a TypeError.\<close>

fun x_lt :: "xval \<Rightarrow> xval \<Rightarrow> error + bool" where
  "x_lt (XInt a) (XInt b) = Inr (a < b)"
| "x_lt (XStr a) (XStr b) = Inr (a < b)"
| "x_lt (XSeq a) (XSeq b) = Inr (a < b)"
| "x_lt _ _ = Inl TypeError"

text \<open>\<^verbatim>\<open><\<close> on the values of \<^verbatim>\<open>y_data\<close>. Comparing a numpy array gives an
  array, whose truth value is ambiguous: a ValueError (numpy decides otherwise for arrays
  of fewer than two elements, depending on its version; this is not modelled).\<close>

fun y_lt :: "yval \<Rightarrow> yval \<Rightarrow> error + bool" where
  "y_lt (YNum a) (YNum b) = Inr (a < b)"
| "y_lt (YList a) (YList b) = Inr (a < b)"
| "y_lt (YArray a) _ = Inl ValueError"
| "y_lt _ (YArray b) = Inl ValueError"
| "y_lt _ _ = Inl TypeError"

definition int_lt :: "int \<Rightarrow> int \<Rightarrow> error + bool" where
  "int_lt a b = Inr (a < b)"

text \<open>\<^verbatim>\<open>min\<close> and \<^verbatim>\<open>max\<close> of an iterable: the first item is the candidate, every
  later item replaces it when it compares smaller (greater); a comparison that raises
  ends the loop; an empty iterable is a ValueError.\<close>

fun min_loop :: "('a \<Rightarrow> 'a \<Rightarrow> error + bool) \<Rightarrow> 'a \<Rightarrow> 'a list \<Rightarrow> error + 'a" where
  "min_loop lt m [] = Inr m"
| "min_loop lt m (v # vs) =
     (case lt v m of Inl e \<Rightarrow> Inl e | Inr b \<Rightarrow> min_loop lt (if b then v else m) vs)"

fun max_loop :: "('a \<Rightarrow> 'a \<Rightarrow> error + bool) \<Rightarrow> 'a \<Rightarrow> 'a list \<Rightarrow> error + 'a" where
  "max_loop lt m [] = Inr m"
| "max_loop lt m (v # vs) =
     (case lt m v of Inl e \<Rightarrow> Inl e | Inr b \<Rightarrow> max_loop lt (if b then v else m) vs)"

definition py_min :: "('a \<Rightarrow> 'a \<Rightarrow> error + bool) \<Rightarrow> 'a list \<Rightarrow> error + 'a" where
  "py_min lt vs = (case vs of [] \<Rightarrow> Inl ValueError | v # vs' \<Rightarrow> min_loop lt v vs')"

definition py_max :: "('a \<Rightarrow> 'a \<Rightarrow> error + bool) \<Rightarrow> 'a list \<Rightarrow> error + 'a" where
  "py_max lt vs = (case vs of [] \<Rightarrow> Inl ValueError | v # vs' \<Rightarrow> max_loop lt v vs')"

text \<open>\<^verbatim>\<open>range(a, b, s)\<close> as a list; a zero step is a ValueError.\<close>

definition py_range :: "int \<Rightarrow> int \<Rightarrow> int \<Rightarrow> error + int list" where
  "py_range a b s =
     (if s = 0 then Inl ValueError
      else if 0 < s then Inr (map (\<lambda>k. a + int k * s) [0..<nat ((b - a + s - 1) div s)])
      else Inr (map (\<lambda>k. a + int k * s) [0..<nat ((a - b - s - 1) div (- s))]))"

text \<open>\<^verbatim>\<open>np.arange(lo, hi, step)\<close> on floats: \<open>\<lceil>(hi - lo) / step\<rceil>\<close> values from
  \<open>lo\<close>; with a zero step the length cannot be computed, a ValueError.\<close>

definition np_arange :: "rat \<Rightarrow> rat \<Rightarrow> rat \<Rightarrow> error + rat list" where
  "np_arange lo hi step =
     (if step = 0 then Inl ValueError
      else Inr (map (\<lambda>k. lo + of_nat k * step) [0..<nat \<lceil>(hi - lo) / step\<rceil>]))"

text \<open>\<^verbatim>\<open>int(x)\<close> of a float: truncation towards zero.\<close>

definition py_int :: "rat \<Rightarrow> int" where
  "py_int r = (if 0 \<le> r then \<lfloor>r\<rfloor> else \<lceil>r\<rceil>)"

text \<open>A value where the source needs an int (an operand of \<^verbatim>\<open>+ int\<close>, an argument of
  \<^verbatim>\<open>range\<close> or \<^verbatim>\<open>np.arange\<close>): None, a string, a list or an array there is a
  TypeError.\<close>

fun x_int :: "xval option \<Rightarrow> error + int" where
  "x_int (Some (XInt n)) = Inr n"
| "x_int _ = Inl TypeError"

fun y_int :: "yval option \<Rightarrow> error + int" where
  "y_int (Some (YNum n)) = Inr n"
| "y_int _ = Inl TypeError"

fun opt_int :: "int option \<Rightarrow> error + int" where
  "opt_int (Some n) = Inr n"
| "opt_int None = Inl TypeError"

text \<open>\<^verbatim>\<open>range(lo, hi + d, d)\<close>, the tick range of both axes.\<close>

definition tick_range :: "error + int \<Rightarrow> error + int \<Rightarrow> error + int \<Rightarrow> error + int list" where
  "tick_range lo hi d =
     (case hi of
        Inl e \<Rightarrow> Inl e
      | Inr b \<Rightarrow>
     (case d of
        Inl e \<Rightarrow> Inl e
      | Inr s \<Rightarrow>
     (case lo of
        Inl e \<Rightarrow> Inl e
      | Inr a \<Rightarrow> py_range a (b + s) s)))"

text \<open>\<^verbatim>\<open>labels[index] if labels else None\<close>: None and the empty list are falsy.\<close>

definition label_at :: "string list option \<Rightarrow> nat \<Rightarrow> error + string option" where
  "label_at ds i =
     (case ds of None \<Rightarrow> Inr None
      | Some l \<Rightarrow> if l = [] then Inr None
                  else if i < length l then Inr (Some (l ! i)) else Inl IndexError)"

section \<open>The chart object\<close>

datatype chart_class = BasePlot | LineChart | SingleBarChart | MultipleBarChart | Histogram

text \<open>The attributes of \<^verbatim>\<open>BasePlot\<close> and of its subclasses. An attribute that only a
  subclass sets (\<open>bar_width\<close>, \<open>num_bins\<close>, \<open>bins\<close>) is \<open>None\<close> on an object that
  does not have it; reading it there is an AttributeError.\<close>

record chart =
  cls :: chart_class
  x_data :: "xval list"
  converted_x_data :: "xval list"
  y_data :: "yval list option"
  diff_x_ticks :: "int option"
  diff_y_ticks :: "int option"
  x_axis_label :: "string option"
  y_axis_label :: "string option"
  y_descriptors :: "string list option"
  title :: "string option"
  min_x :: "xval option"
  max_x :: "xval option"
  min_y :: "yval option"
  max_y :: "yval option"
  ax :: "axes option"
  grid_range :: "rat list option"
  bar_width :: "rat option"
  num_bins :: "int option"
  bins :: "rat list option"

text \<open>A method: the pyplot calls it made, and either the exception it raised or the
  object as it left it.\<close>

type_synonym stage = "chart \<Rightarrow> plt_call list \<times> (error + chart)"

text \<open>A method body that calls methods one after the other: the first exception ends it,
  and the calls made until then stay made.\<close>

fun run :: "stage list \<Rightarrow> stage" where
  "run [] s = ([], Inr s)"
| "run (f # fs) s =
     (case f s of
        (tr, Inl e) \<Rightarrow> (tr, Inl e)
      | (tr, Inr s') \<Rightarrow> (case run fs s' of (tr', r) \<Rightarrow> (tr @ tr', r)))"

section \<open>Constructors\<close>

text \<open>\<^verbatim>\<open>BasePlot.__init__\<close>: stores its arguments; nothing is computed yet.\<close>

definition BasePlot_init ::
  "chart_class \<Rightarrow> xval list \<Rightarrow> yval list option \<Rightarrow> int option \<Rightarrow> int option \<Rightarrow>
   string option \<Rightarrow> string option \<Rightarrow> string list option \<Rightarrow> string option \<Rightarrow> chart" where
  "BasePlot_init c x y dx dy xl yl yd t =
     \<lparr>cls = c, x_data = x, converted_x_data = x, y_data = y,
      diff_x_ticks = dx, diff_y_ticks = dy, x_axis_label = xl, y_axis_label = yl,
      y_descriptors = yd, title = t,
      min_x = None, max_x = None, min_y = None, max_y = None, ax = None, grid_range = None,
      bar_width = None, num_bins = None, bins = None\<rparr>"

text \<open>\<^verbatim>\<open>np.arange(0, len(x_data))\<close>.\<close>

definition positions :: "xval list \<Rightarrow> xval list" where
  "positions x = map (\<lambda>k. XInt (int k)) [0..<length x]"

text \<open>Constructing an object of each class: \<open>Inl\<close> the exception that the constructor
  raised, \<open>Inr\<close> the new object.\<close>

definition new_BasePlot ::
  "xval list \<Rightarrow> yval list option \<Rightarrow> int option \<Rightarrow> int option \<Rightarrow>
   string option \<Rightarrow> string option \<Rightarrow> string list option \<Rightarrow> string option \<Rightarrow> error + chart" where
  "new_BasePlot x y dx dy xl yl yd t = Inr (BasePlot_init BasePlot x y dx dy xl yl yd t)"

definition new_LineChart ::
  "xval list \<Rightarrow> yval list option \<Rightarrow> int option \<Rightarrow> int option \<Rightarrow>
   string option \<Rightarrow> string option \<Rightarrow> string list option \<Rightarrow> string option \<Rightarrow> error + chart" where
  "new_LineChart x y dx dy xl yl yd t = Inr (BasePlot_init LineChart x y dx dy xl yl yd t)"

definition new_SingleBarChart ::
  "xval list \<Rightarrow> yval list option \<Rightarrow> int option \<Rightarrow> int option \<Rightarrow>
   string option \<Rightarrow> string option \<Rightarrow> string list option \<Rightarrow> string option \<Rightarrow> error + chart" where
  "new_SingleBarChart x y dx dy xl yl yd t =
     Inr ((BasePlot_init SingleBarChart x y dx dy xl yl yd t)
            \<lparr>converted_x_data := positions x\<rparr>)"

text \<open>\<^verbatim>\<open>len(y_data)\<close> of None is a TypeError.\<close>

definition new_MultipleBarChart ::
  "xval list \<Rightarrow> yval list option \<Rightarrow> int option \<Rightarrow> int option \<Rightarrow>
   string option \<Rightarrow> string option \<Rightarrow> string list option \<Rightarrow> string option \<Rightarrow> error + chart" where
  "new_MultipleBarChart x y dx dy xl yl yd t =
     (let s = (BasePlot_init MultipleBarChart x y dx dy xl yl yd t)
                \<lparr>converted_x_data := positions x\<rparr>
      in case y of
           None \<Rightarrow> Inl TypeError
         | Some ys \<Rightarrow> Inr (s\<lparr>bar_width := Some (if length ys < 5 then 25 / 100 else 1 / 10)\<rparr>))"

text \<open>\<^verbatim>\<open>numpy.histogram(x_array, bins=num_bins)\<close> is library code: the constructor
  takes it as the parameter \<open>hist\<close>, which returns the per-bin counts and the bin edges,
  or the exception numpy raised.\<close>

type_synonym histogram_fn = "xval \<Rightarrow> int \<Rightarrow> error + (int list \<times> rat list)"

text \<open>The loop of \<^verbatim>\<open>Histogram.__init__\<close>, with its two accumulators
  \<^verbatim>\<open>self.bins\<close> and \<^verbatim>\<open>hist_bin_values\<close>.\<close>

fun hist_loop ::
  "histogram_fn \<Rightarrow> int \<Rightarrow> xval list \<Rightarrow> rat list \<Rightarrow> int list \<Rightarrow> error + (rat list \<times> int list)" where
  "hist_loop hist n [] bs vs = Inr (bs, vs)"
| "hist_loop hist n (x_array # xs) bs vs =
     (case hist x_array n of
        Inl e \<Rightarrow> Inl e
      | Inr (current, edges) \<Rightarrow> hist_loop hist n xs (bs @ edges) (vs @ current))"

definition new_Histogram ::
  "histogram_fn \<Rightarrow> xval list \<Rightarrow> int \<Rightarrow> int option \<Rightarrow> int option \<Rightarrow>
   string option \<Rightarrow> string option \<Rightarrow> string list option \<Rightarrow> string option \<Rightarrow> error + chart" where
  "new_Histogram hist x n dx dy xl yl yd t =
     (let s = (BasePlot_init Histogram x None dx dy xl yl yd t)\<lparr>num_bins := Some n\<rparr>
      in case hist_loop hist n x [] [] of
           Inl e \<Rightarrow> Inl e
         | Inr (bs, hist_bin_values) \<Rightarrow>
             (case py_max int_lt hist_bin_values of
                Inl e \<Rightarrow> Inl e
              | Inr m \<Rightarrow>
                  Inr (s\<lparr>bins := Some bs, min_y := Some (YNum 0), max_y := Some (YNum m)\<rparr>)))"

section \<open>Methods of BasePlot\<close>

definition BasePlot_check_inputs :: stage where
  "BasePlot_check_inputs s = ([], Inr s)"

definition BasePlot_plot :: stage where
  "BasePlot_plot s = ([], Inl NotImplementedError)"

definition set_font :: stage where
  "set_font s = ([Rc ''text'' ''usetex'' ''True'', Rc ''font'' ''family'' ''serif''], Inr s)"

text \<open>The assignment \<^verbatim>\<open>self.ax = plt.subplot(111)\<close> of \<^verbatim>\<open>set_up_chart\<close>.\<close>

definition new_axes :: stage where
  "new_axes s = ([NewSubplot 111], Inr (s\<lparr>ax := Some (Subplot 111)\<rparr>))"

definition remove_spines :: stage where
  "remove_spines s =
     (case ax s of
        None \<Rightarrow> ([], Inl AttributeError)
      | Some a \<Rightarrow>
          ([SpineOff ''top'', SpineOff ''bottom'', SpineOff ''right'', SpineOff ''left''],
           Inr s))"

definition include_text :: stage where
  "include_text s =
     ((case title s of None \<Rightarrow> [] | Some t \<Rightarrow> if t = [] then [] else [Title t]) @
      (case x_axis_label s of None \<Rightarrow> [] | Some l \<Rightarrow> if l = [] then [] else [Xlabel l]) @
      (case y_axis_label s of None \<Rightarrow> [] | Some l \<Rightarrow> if l = [] then [] else [Ylabel l]) @
      (case y_descriptors s of None \<Rightarrow> [] | Some d \<Rightarrow> if d = [] then [] else [Legend]) @
      [Show],
      Inr s)"

text \<open>The final \<^verbatim>\<open>plt.show()\<close> of \<^verbatim>\<open>__call__\<close>.\<close>

definition show_figure :: stage where
  "show_figure s = ([Show], Inr s)"

text \<open>The generator \<^verbatim>\<open>(min(y_arr) for y_arr in self.y_data)\<close>, consumed from the
  left: \<^verbatim>\<open>min\<close> of a number is a TypeError, of an empty list or array a ValueError.
  The items it yields are ints, whose comparison never raises.\<close>

fun each_of :: "(int list \<Rightarrow> error + int) \<Rightarrow> yval list \<Rightarrow> error + int list" where
  "each_of f [] = Inr []"
| "each_of f (y_arr # ys) =
     (case (case y_arr of YNum n \<Rightarrow> Inl TypeError | YList l \<Rightarrow> f l | YArray l \<Rightarrow> f l) of
        Inl e \<Rightarrow> Inl e
      | Inr m \<Rightarrow> (case each_of f ys of Inl e \<Rightarrow> Inl e | Inr ms \<Rightarrow> Inr (m # ms)))"

definition nested_min_max :: "yval list \<Rightarrow> error + (int \<times> int)" where
  "nested_min_max ys =
     (case each_of (py_min int_lt) ys of
        Inl e \<Rightarrow> Inl e
      | Inr los \<Rightarrow>
     (case py_min int_lt los of
        Inl e \<Rightarrow> Inl e
      | Inr lo \<Rightarrow>
     (case each_of (py_max int_lt) ys of
        Inl e \<Rightarrow> Inl e
      | Inr his \<Rightarrow>
     (case py_max int_lt his of
        Inl e \<Rightarrow> Inl e
      | Inr hi \<Rightarrow> Inr (lo, hi)))))"

definition flat_min_max :: "yval list \<Rightarrow> error + (yval \<times> yval)" where
  "flat_min_max ys =
     (case py_min y_lt ys of
        Inl e \<Rightarrow> Inl e
      | Inr lo \<Rightarrow> (case py_max y_lt ys of Inl e \<Rightarrow> Inl e | Inr hi \<Rightarrow> Inr (lo, hi)))"

text \<open>\<^verbatim>\<open>get_min_max\<close>: the x range first; a falsy \<^verbatim>\<open>y_data\<close> (None, empty list)
  returns early; the \<^verbatim>\<open>try\<close> block takes the nested minimum and maximum, and a
  TypeError there (only a TypeError) falls back to the flat ones.\<close>

definition BasePlot_get_min_max :: stage where
  "BasePlot_get_min_max s =
     (case py_min x_lt (converted_x_data s) of
        Inl e \<Rightarrow> ([], Inl e)
      | Inr lo_x \<Rightarrow>
     (case py_max x_lt (converted_x_data s) of
        Inl e \<Rightarrow> ([], Inl e)
      | Inr hi_x \<Rightarrow>
     (let s1 = s\<lparr>min_x := Some lo_x, max_x := Some hi_x\<rparr>
      in case y_data s of
           None \<Rightarrow> ([], Inr s1)
         | Some ys \<Rightarrow>
             if ys = [] then ([], Inr s1)
             else (case nested_min_max ys of
                     Inr (lo, hi) \<Rightarrow> ([], Inr (s1\<lparr>min_y := Some (YNum lo), max_y := Some (YNum hi)\<rparr>))
                   | Inl TypeError \<Rightarrow>
                       (case flat_min_max ys of
                          Inl e \<Rightarrow> ([], Inl e)
                        | Inr (lo, hi) \<Rightarrow> ([], Inr (s1\<lparr>min_y := Some lo, max_y := Some hi\<rparr>)))
                   | Inl e \<Rightarrow> ([], Inl e)))))"

text \<open>\<^verbatim>\<open>isinstance(self.x_data[0], str)\<close>; an empty \<^verbatim>\<open>x_data\<close> is an IndexError.\<close>

definition first_is_str :: "xval list \<Rightarrow> error + bool" where
  "first_is_str x = (case x of [] \<Rightarrow> Inl IndexError | XStr _ # _ \<Rightarrow> Inr True | _ # _ \<Rightarrow> Inr False)"

definition BasePlot_get_ticks :: stage where
  "BasePlot_get_ticks s =
     (case tick_range (y_int (min_y s)) (y_int (max_y s)) (opt_int (diff_y_ticks s)) of
        Inl e \<Rightarrow> ([], Inl e)
      | Inr y_tick_range \<Rightarrow>
     (case tick_range (x_int (min_x s)) (x_int (max_x s)) (opt_int (diff_x_ticks s)) of
        Inl e \<Rightarrow> ([], Inl e)
      | Inr x_tick_range \<Rightarrow>
     (case first_is_str (x_data s) of
        Inl e \<Rightarrow> ([Yticks y_tick_range (map Str y_tick_range)], Inl e)
      | Inr b \<Rightarrow>
          ([Yticks y_tick_range (map Str y_tick_range),
            Xticks (map of_int x_tick_range) (if b then x_data s else map XInt x_tick_range)],
           Inr s))))"

definition BasePlot_get_grid_range :: stage where
  "BasePlot_get_grid_range s = ([], Inl NotImplementedError)"

text \<open>\<^verbatim>\<open>get_grid\<close>: one dashed line per y tick; \<^verbatim>\<open>len(self.grid_range)\<close> of None
  is a TypeError, raised in the first iteration if there is one.\<close>

definition get_grid :: stage where
  "get_grid s =
     (case tick_range (y_int (min_y s)) (y_int (max_y s)) (opt_int (diff_y_ticks s)) of
        Inl e \<Rightarrow> ([], Inl e)
      | Inr ys \<Rightarrow>
          if ys = [] then ([], Inr s)
          else (case grid_range s of
                  None \<Rightarrow> ([], Inl TypeError)
                | Some g \<Rightarrow> (map (\<lambda>y. GridLine g (replicate (length g) y)) ys, Inr s)))"

section \<open>Methods of the subclasses\<close>

subsection \<open>LineChart\<close>

text \<open>\<^verbatim>\<open>np.arange(self.min_x, self.max_x + self.diff_x_ticks)\<close>, step 1.\<close>

definition LineChart_get_grid_range :: stage where
  "LineChart_get_grid_range s =
     (case x_int (max_x s) of
        Inl e \<Rightarrow> ([], Inl e)
      | Inr hi \<Rightarrow>
     (case opt_int (diff_x_ticks s) of
        Inl e \<Rightarrow> ([], Inl e)
      | Inr d \<Rightarrow>
     (case x_int (min_x s) of
        Inl e \<Rightarrow> ([], Inl e)
      | Inr lo \<Rightarrow> ([], Inr (s\<lparr>grid_range := Some (map of_int [lo..hi + d - 1])\<rparr>)))))"

text \<open>The loop of \<^verbatim>\<open>LineChart.plot\<close> over \<^verbatim>\<open>enumerate(self.y_data)\<close>, from
  index \<open>i\<close> on: the colour is \<^verbatim>\<open>tableau20[index]\<close>, with no reduction of the
  index.\<close>

fun LineChart_plot_loop :: "chart \<Rightarrow> nat \<Rightarrow> yval list \<Rightarrow> plt_call list \<times> (error + unit)" where
  "LineChart_plot_loop s i [] = ([], Inr ())"
| "LineChart_plot_loop s i (y_arr # ys) =
     (case tableau20_at i of
        Inl e \<Rightarrow> ([], Inl e)
      | Inr c \<Rightarrow>
     (case label_at (y_descriptors s) i of
        Inl e \<Rightarrow> ([], Inl e)
      | Inr l \<Rightarrow>
     (case LineChart_plot_loop s (Suc i) ys of
        (tr, r) \<Rightarrow> (Line (x_data s) y_arr c l # tr, r))))"

definition LineChart_plot :: stage where
  "LineChart_plot s =
     (case y_data s of
        None \<Rightarrow> ([], Inl TypeError)
      | Some ys \<Rightarrow>
          (case LineChart_plot_loop s 0 ys of
             (tr, Inl e) \<Rightarrow> (tr, Inl e)
           | (tr, Inr u) \<Rightarrow> (tr, Inr s)))"

subsection \<open>SingleBarChart\<close>

fun is_list :: "yval \<Rightarrow> bool" where
  "is_list (YList l) = True"
| "is_list _ = False"

fun is_ndarray :: "yval \<Rightarrow> bool" where
  "is_ndarray (YArray l) = True"
| "is_ndarray _ = False"

text \<open>\<^verbatim>\<open>check_inputs\<close> looks at the elements of \<^verbatim>\<open>y_data\<close> only; iterating over
  None is a TypeError.\<close>

definition SingleBarChart_check_inputs :: stage where
  "SingleBarChart_check_inputs s =
     (case y_data s of
        None \<Rightarrow> ([], Inl TypeError)
      | Some ys \<Rightarrow>
          (let is_list_of_lists = list_ex is_list ys;
               is_list_of_arrays = list_ex is_ndarray ys
           in if is_list_of_arrays \<or> is_list_of_lists then ([], Inl InvalidInputException)
              else ([], Inr s)))"

text \<open>\<^verbatim>\<open>sorted(list(np.arange(min_x, max_x + 1)) + [min_x - pad] + [max_x + pad])\<close>, the
  grid range of both bar charts.\<close>

definition bar_grid :: "int \<Rightarrow> int \<Rightarrow> rat \<Rightarrow> rat list" where
  "bar_grid lo hi pad = sort (map of_int [lo..hi] @ [of_int lo - pad] @ [of_int hi + pad])"

definition SingleBarChart_get_grid_range :: stage where
  "SingleBarChart_get_grid_range s =
     (case x_int (max_x s) of
        Inl e \<Rightarrow> ([], Inl e)
      | Inr hi \<Rightarrow>
     (case x_int (min_x s) of
        Inl e \<Rightarrow> ([], Inl e)
      | Inr lo \<Rightarrow>
          ([], Inr (s\<lparr>grid_range := Some (bar_grid lo hi (5 / 10 * DEFAULT_BAR_WIDTH))\<rparr>))))"

definition SingleBarChart_plot :: stage where
  "SingleBarChart_plot s =
     (case tableau20_at 0 of
        Inl e \<Rightarrow> ([], Inl e)
      | Inr c \<Rightarrow>
     (case label_at (y_descriptors s) 0 of
        Inl e \<Rightarrow> ([], Inl e)
      | Inr l \<Rightarrow> ([Bar (converted_x_data s) (y_data s) c l], Inr s)))"

subsection \<open>MultipleBarChart\<close>

text \<open>\<^verbatim>\<open>np.array(self.converted_x_data)\<close> as the operand of a subtraction: an array of
  numbers; on anything else the arithmetic is a TypeError.\<close>

fun as_number :: "xval \<Rightarrow> error + rat" where
  "as_number (XInt n) = Inr (of_int n)"
| "as_number _ = Inl TypeError"

fun as_numbers :: "xval list \<Rightarrow> error + rat list" where
  "as_numbers [] = Inr []"
| "as_numbers (v # vs) =
     (case as_number v of
        Inl e \<Rightarrow> Inl e
      | Inr r \<Rightarrow> (case as_numbers vs of Inl e \<Rightarrow> Inl e | Inr rs \<Rightarrow> Inr (r # rs)))"

definition MultipleBarChart_get_grid_range :: stage where
  "MultipleBarChart_get_grid_range s =
     (case x_int (max_x s) of
        Inl e \<Rightarrow> ([], Inl e)
      | Inr hi \<Rightarrow>
     (case x_int (min_x s) of
        Inl e \<Rightarrow> ([], Inl e)
      | Inr lo \<Rightarrow>
     (case bar_width s of
        None \<Rightarrow> ([], Inl AttributeError)
      | Some w \<Rightarrow>
     (case y_data s of
        None \<Rightarrow> ([], Inl TypeError)
      | Some ys \<Rightarrow>
          ([], Inr (s\<lparr>grid_range := Some (bar_grid lo hi (w * of_nat (length ys) / 2))\<rparr>))))))"

text \<open>The loop of \<^verbatim>\<open>MultipleBarChart.plot\<close>: \<open>start_step\<close> is the array that
  \<^verbatim>\<open>start_step += self.bar_width\<close> moves after every series.\<close>

fun MultipleBarChart_plot_loop ::
  "chart \<Rightarrow> rat \<Rightarrow> rat list \<Rightarrow> nat \<Rightarrow> yval list \<Rightarrow> plt_call list \<times> (error + unit)" where
  "MultipleBarChart_plot_loop s w start_step i [] = ([], Inr ())"
| "MultipleBarChart_plot_loop s w start_step i (y_arr # ys) =
     (case tableau20_at i of
        Inl e \<Rightarrow> ([], Inl e)
      | Inr c \<Rightarrow>
     (case label_at (y_descriptors s) i of
        Inl e \<Rightarrow> ([], Inl e)
      | Inr l \<Rightarrow>
     (case MultipleBarChart_plot_loop s w (map (\<lambda>p. p + w) start_step) (Suc i) ys of
        (tr, r) \<Rightarrow> (BarOfWidth start_step y_arr w c l # tr, r))))"

definition MultipleBarChart_plot :: stage where
  "MultipleBarChart_plot s =
     (case bar_width s of
        None \<Rightarrow> ([], Inl AttributeError)
      | Some w \<Rightarrow>
     (case y_data s of
        None \<Rightarrow> ([], Inl TypeError)
      | Some ys \<Rightarrow>
     (case as_numbers (converted_x_data s) of
        Inl e \<Rightarrow> ([], Inl e)
      | Inr ps \<Rightarrow>
          (let start_step = map (\<lambda>p. p - w * of_nat (length ys) / 2 + 5 / 10 * w) ps
           in case MultipleBarChart_plot_loop s w start_step 0 ys of
                (tr, Inl e) \<Rightarrow> (tr, Inl e)
              | (tr, Inr u) \<Rightarrow> (tr, Inr s)))))"

subsection \<open>Histogram\<close>

definition Histogram_get_min_max :: stage where
  "Histogram_get_min_max s = ([], Inr s)"

text \<open>\<^verbatim>\<open>min(self.bins)\<close> and \<^verbatim>\<open>max(self.bins)\<close>.\<close>

definition rat_lt :: "rat \<Rightarrow> rat \<Rightarrow> error + bool" where
  "rat_lt a b = Inr (a < b)"

definition bin_bounds :: "chart \<Rightarrow> error + (rat list \<times> rat \<times> rat)" where
  "bin_bounds s =
     (case bins s of
        None \<Rightarrow> Inl AttributeError
      | Some bs \<Rightarrow>
     (case py_min rat_lt bs of
        Inl e \<Rightarrow> Inl e
      | Inr lo \<Rightarrow> (case py_max rat_lt bs of Inl e \<Rightarrow> Inl e | Inr hi \<Rightarrow> Inr (bs, lo, hi))))"

definition Histogram_get_ticks :: stage where
  "Histogram_get_ticks s =
     (case tick_range (y_int (min_y s)) (y_int (max_y s)) (opt_int (diff_y_ticks s)) of
        Inl e \<Rightarrow> ([], Inl e)
      | Inr y_tick_range \<Rightarrow>
     (case bin_bounds s of
        Inl e \<Rightarrow> ([], Inl e)
      | Inr (bs, lo, hi) \<Rightarrow>
     (case opt_int (diff_x_ticks s) of
        Inl e \<Rightarrow> ([], Inl e)
      | Inr d \<Rightarrow>
     (case np_arange lo (hi + of_int d) (of_int d) of
        Inl e \<Rightarrow> ([], Inl e)
      | Inr x_tick_range \<Rightarrow>
          ([Yticks y_tick_range (map StrPercent y_tick_range),
            Xticks x_tick_range (map (\<lambda>x. XInt (py_int x)) x_tick_range)],
           Inr s)))))"

definition Histogram_get_grid_range :: stage where
  "Histogram_get_grid_range s =
     (case bin_bounds s of
        Inl e \<Rightarrow> ([], Inl e)
      | Inr (bs, lo, hi) \<Rightarrow>
     (case np_arange lo hi ((hi - lo) / of_nat (length bs)) of
        Inl e \<Rightarrow> ([], Inl e)
      | Inr g \<Rightarrow> ([], Inr (s\<lparr>grid_range := Some (g @ [hi])\<rparr>))))"

text \<open>\<^verbatim>\<open>[tableau20[i] for i in range(len(self.x_data))]\<close>, from index \<open>i\<close> on.\<close>

fun colours_from :: "nat \<Rightarrow> nat \<Rightarrow> error + colour list" where
  "colours_from i 0 = Inr []"
| "colours_from i (Suc n) =
     (case tableau20_at i of
        Inl e \<Rightarrow> Inl e
      | Inr c \<Rightarrow> (case colours_from (Suc i) n of Inl e \<Rightarrow> Inl e | Inr cs \<Rightarrow> Inr (c # cs)))"

definition Histogram_plot :: stage where
  "Histogram_plot s =
     (case num_bins s of
        None \<Rightarrow> ([], Inl AttributeError)
      | Some n \<Rightarrow>
     (case colours_from 0 (length (x_data s)) of
        Inl e \<Rightarrow> ([], Inl e)
      | Inr cs \<Rightarrow> ([Hist (x_data s) n cs], Inr s)))"

section \<open>Method resolution and the template\<close>

text \<open>A call \<^verbatim>\<open>self.m()\<close> runs the method of the object's class, or the one it
  inherits from \<^verbatim>\<open>BasePlot\<close>.\<close>

definition check_inputs :: stage where
  "check_inputs s =
     (case cls s of
        SingleBarChart \<Rightarrow> SingleBarChart_check_inputs s
      | _ \<Rightarrow> BasePlot_check_inputs s)"

definition get_min_max :: stage where
  "get_min_max s =
     (case cls s of
        Histogram \<Rightarrow> Histogram_get_min_max s
      | _ \<Rightarrow> BasePlot_get_min_max s)"

definition get_ticks :: stage where
  "get_ticks s =
     (case cls s of
        Histogram \<Rightarrow> Histogram_get_ticks s
      | _ \<Rightarrow> BasePlot_get_ticks s)"

definition get_grid_range :: stage where
  "get_grid_range s =
     (case cls s of
        BasePlot \<Rightarrow> BasePlot_get_grid_range s
      | LineChart \<Rightarrow> LineChart_get_grid_range s
      | SingleBarChart \<Rightarrow> SingleBarChart_get_grid_range s
      | MultipleBarChart \<Rightarrow> MultipleBarChart_get_grid_range s
      | Histogram \<Rightarrow> Histogram_get_grid_range s)"

definition plot :: stage where
  "plot s =
     (case cls s of
        BasePlot \<Rightarrow> BasePlot_plot s
      | LineChart \<Rightarrow> LineChart_plot s
      | SingleBarChart \<Rightarrow> SingleBarChart_plot s
      | MultipleBarChart \<Rightarrow> MultipleBarChart_plot s
      | Histogram \<Rightarrow> Histogram_plot s)"

definition set_up_chart :: stage where
  "set_up_chart =
     run [check_inputs, set_font, new_axes, remove_spines, get_min_max, get_ticks,
          get_grid_range, get_grid]"

text \<open>\<^verbatim>\<open>BasePlot.__call__\<close>, the render entry point.\<close>

definition call :: stage where
  "call = run [set_up_chart, plot, include_text, show_figure]"

text \<open>\<^verbatim>\<open>chart = C(...); chart.m()\<close>: the method is reached only if the constructor
  returned.\<close>

definition then_do :: "error + chart \<Rightarrow> stage \<Rightarrow> plt_call list \<times> (error + chart)" where
  "then_do new m = (case new of Inl e \<Rightarrow> ([], Inl e) | Inr s \<Rightarrow> m s)"

section \<open>Vocabulary of the properties\<close>

text \<open>The label of series \<open>i\<close>: the \<open>i\<close>-th legend label when legend labels were
  supplied (a non-empty list), none otherwise.\<close>

definition legend_label :: "string list option \<Rightarrow> nat \<Rightarrow> string option" where
  "legend_label ds i =
     (case ds of None \<Rightarrow> None | Some l \<Rightarrow> if l = [] then None else Some (l ! i))"

text \<open>The legend labels, when supplied, are enough for \<open>n\<close> series.\<close>

definition enough_labels :: "string list option \<Rightarrow> nat \<Rightarrow> bool" where
  "enough_labels ds n = (case ds of None \<Rightarrow> True | Some l \<Rightarrow> l = [] \<or> n \<le> length l)"

text \<open>The attributes that the constructors set are the same in both objects.\<close>

definition same_inputs :: "chart \<Rightarrow> chart \<Rightarrow> bool" where
  "same_inputs s s' \<longleftrightarrow>
     cls s' = cls s \<and> x_data s' = x_data s \<and> converted_x_data s' = converted_x_data s \<and>
     y_data s' = y_data s \<and> diff_x_ticks s' = diff_x_ticks s \<and>
     diff_y_ticks s' = diff_y_ticks s \<and> x_axis_label s' = x_axis_label s \<and>
     y_axis_label s' = y_axis_label s \<and> y_descriptors s' = y_descriptors s \<and>
     title s' = title s \<and> bar_width s' = bar_width s \<and> num_bins s' = num_bins s \<and>
     bins s' = bins s"

text \<open>The integer positions from \<open>lo\<close> to \<open>hi\<close>, with one value \<open>pad\<close> below the
  first and one value \<open>pad\<close> above the last.\<close>

definition padded_positions :: "int \<Rightarrow> int \<Rightarrow> rat \<Rightarrow> rat list" where
  "padded_positions lo hi pad = (of_int lo - pad) # map of_int [lo..hi] @ [of_int hi + pad]"

text \<open>The statements of \<^verbatim>\<open>set_up_chart\<close> that come before \<^verbatim>\<open>self.get_grid_range()\<close>.\<close>

definition before_grid_range :: stage where
  "before_grid_range =
     run [check_inputs, set_font, new_axes, remove_spines, get_min_max, get_ticks]"

text \<open>The per-bin counts and the bin edges that the library function returns for one
  input sequence (nothing when it raises).\<close>

definition bin_counts :: "histogram_fn \<Rightarrow> xval \<Rightarrow> int \<Rightarrow> int list" where
  "bin_counts hist a n = (case hist a n of Inl e \<Rightarrow> [] | Inr (counts, edges) \<Rightarrow> counts)"

definition bin_edges :: "histogram_fn \<Rightarrow> xval \<Rightarrow> int \<Rightarrow> rat list" where
  "bin_edges hist a n = (case hist a n of Inl e \<Rightarrow> [] | Inr (counts, edges) \<Rightarrow> edges)"

text \<open>A reference for \<^verbatim>\<open>numpy.histogram(a, bins=n)\<close> in exact arithmetic, used to
  instantiate the library parameter: a bin count below 1 is a ValueError; the range is
  that of the data (0 to 1 for no data, widened by one half on each side when all values
  are equal); there are \<open>n\<close> bins of equal width, all half-open except the last.\<close>

definition sample_values :: "xval \<Rightarrow> error + rat list" where
  "sample_values v =
     (case v of XInt k \<Rightarrow> Inr [of_int k] | XSeq l \<Rightarrow> Inr l | XStr l \<Rightarrow> Inl TypeError)"

definition equal_width_histogram :: histogram_fn where
  "equal_width_histogram v n =
     (if n < 1 then Inl ValueError
      else case sample_values v of
        Inl e \<Rightarrow> Inl e
      | Inr a \<Rightarrow>
          (let first_edge = (if a = [] then 0 else Min (set a));
               last_edge = (if a = [] then 1 else Max (set a));
               lo = (if first_edge = last_edge then first_edge - 1 / 2 else first_edge);
               hi = (if first_edge = last_edge then last_edge + 1 / 2 else last_edge);
               k = nat n;
               edges = map (\<lambda>j. lo + of_nat j * (hi - lo) / of_nat k) [0..<Suc k];
               bin = (\<lambda>v. if v = hi then k - 1 else nat \<lfloor>(v - lo) * of_nat k / (hi - lo)\<rfloor>);
               counts = map (\<lambda>j. int (length (filter (\<lambda>v. bin v = j) a))) [0..<k]
           in Inr (counts, edges)))"

section \<open>Properties of the template\<close>

lemma run_first_raises: "f s = (tr, Inl e) \<Longrightarrow> run (f # fs) s = (tr, Inl e)"
  by simp

lemma check_inputs_silent: "fst (check_inputs s) = []"
  by (simp add: check_inputs_def BasePlot_check_inputs_def SingleBarChart_check_inputs_def
      Let_def split: chart_class.splits option.splits)

lemma check_inputs_raises_call:
  assumes "snd (check_inputs s) = Inl e"
  shows "set_up_chart s = ([], Inl e)" and "call s = ([], Inl e)"
proof -
  from assms check_inputs_silent [of s] have c: "check_inputs s = ([], Inl e)"
    by (cases "check_inputs s") simp
  then show s: "set_up_chart s = ([], Inl e)"
    unfolding set_up_chart_def by (rule run_first_raises)
  then show "call s = ([], Inl e)"
    unfolding call_def by (rule run_first_raises)
qed

lemma SingleBarChart_check_inputs_nested:
  "y_data s = Some ys \<Longrightarrow>
   SingleBarChart_check_inputs s =
     (if \<exists>y\<in>set ys. is_list y \<or> is_ndarray y then ([], Inl InvalidInputException)
      else ([], Inr s))"
  by (auto simp add: SingleBarChart_check_inputs_def Let_def list_ex_iff)

lemma same_inputs_refl: "same_inputs s s"
  by (simp add: same_inputs_def)

lemma same_inputs_trans: "same_inputs s s' \<Longrightarrow> same_inputs s' s'' \<Longrightarrow> same_inputs s s''"
  by (simp add: same_inputs_def)

text \<open>Stages that return the object as they found it.\<close>

lemma check_inputs_returns: "check_inputs s = (tr, Inr s') \<Longrightarrow> s' = s \<and> tr = []"
  by (auto simp add: check_inputs_def BasePlot_check_inputs_def SingleBarChart_check_inputs_def
      Let_def split: chart_class.splits option.splits if_splits)

lemma set_font_returns: "set_font s = (tr, r) \<Longrightarrow> r = Inr s"
  by (auto simp add: set_font_def)

lemma remove_spines_returns: "remove_spines s = (tr, Inr s') \<Longrightarrow> s' = s"
  by (auto simp add: remove_spines_def split: option.splits)

lemma get_ticks_returns: "get_ticks s = (tr, Inr s') \<Longrightarrow> s' = s"
  by (auto simp add: get_ticks_def BasePlot_get_ticks_def Histogram_get_ticks_def
      split: chart_class.splits sum.splits prod.splits)

lemma get_grid_returns: "get_grid s = (tr, Inr s') \<Longrightarrow> s' = s"
  by (auto simp add: get_grid_def split: sum.splits option.splits if_splits)

lemma plot_returns: "plot s = (tr, Inr s') \<Longrightarrow> s' = s"
  by (auto simp add: plot_def BasePlot_plot_def LineChart_plot_def SingleBarChart_plot_def
      MultipleBarChart_plot_def Histogram_plot_def Let_def
      split: chart_class.splits sum.splits prod.splits option.splits)

lemma include_text_returns: "include_text s = (tr, r) \<Longrightarrow> r = Inr s"
  by (auto simp add: include_text_def)

lemma show_figure_returns: "show_figure s = (tr, r) \<Longrightarrow> r = Inr s \<and> tr = [Show]"
  by (auto simp add: show_figure_def)

lemma new_axes_returns: "new_axes s = (tr, r) \<Longrightarrow> r = Inr (s\<lparr>ax := Some (Subplot 111)\<rparr>)"
  by (auto simp add: new_axes_def)

lemma BasePlot_get_min_max_same: "BasePlot_get_min_max s = (tr, Inr s') \<Longrightarrow> same_inputs s s'"
  by (auto simp add: BasePlot_get_min_max_def same_inputs_def Let_def
      split: sum.splits option.splits if_splits prod.splits error.splits)

lemma get_min_max_same: "get_min_max s = (tr, Inr s') \<Longrightarrow> same_inputs s s'"
  by (auto simp add: get_min_max_def Histogram_get_min_max_def same_inputs_refl
      split: chart_class.splits dest: BasePlot_get_min_max_same)

lemma get_grid_range_same: "get_grid_range s = (tr, Inr s') \<Longrightarrow> same_inputs s s'"
  by (auto simp add: get_grid_range_def BasePlot_get_grid_range_def LineChart_get_grid_range_def
      SingleBarChart_get_grid_range_def MultipleBarChart_get_grid_range_def
      Histogram_get_grid_range_def same_inputs_def
      split: chart_class.splits sum.splits option.splits prod.splits)

text \<open>Decomposing a sequence of stages that returned.\<close>

lemma run_Cons_returns:
  "run (f # fs) s = (tr, Inr s') \<longleftrightarrow>
   (\<exists>tr1 s1 tr2. f s = (tr1, Inr s1) \<and> run fs s1 = (tr2, Inr s') \<and> tr = tr1 @ tr2)"
  by (auto split: prod.splits sum.splits)

lemma run_Nil_returns: "run [] s = (tr, Inr s') \<longleftrightarrow> tr = [] \<and> s' = s"
  by auto

lemma set_up_chart_returns:
  assumes "set_up_chart s = (tr, Inr s')"
  obtains t1 s1 t2 t3 where
    "get_min_max (s\<lparr>ax := Some (Subplot 111)\<rparr>) = (t1, Inr s1)"
    "get_ticks s1 = (t2, Inr s1)"
    "get_grid_range s1 = (t3, Inr s')"
    "check_inputs s = ([], Inr s)"
proof -
  from assms obtain a1 u1 a2 u2 a3 u3 a4 u4 a5 u5 a6 u6 a7 u7 a8 where
    1: "check_inputs s = (a1, Inr u1)" and 2: "set_font u1 = (a2, Inr u2)"
    and 3: "new_axes u2 = (a3, Inr u3)" and 4: "remove_spines u3 = (a4, Inr u4)"
    and 5: "get_min_max u4 = (a5, Inr u5)" and 6: "get_ticks u5 = (a6, Inr u6)"
    and 7: "get_grid_range u6 = (a7, Inr u7)" and 8: "get_grid u7 = (a8, Inr s')"
    unfolding set_up_chart_def run_Cons_returns run_Nil_returns by blast
  from 1 have "u1 = s" "a1 = []" by (auto dest: check_inputs_returns)
  moreover from 2 have "u2 = u1" by (auto dest: set_font_returns)
  moreover from 3 have "u3 = u2\<lparr>ax := Some (Subplot 111)\<rparr>" by (auto dest: new_axes_returns)
  moreover from 4 have "u4 = u3" by (auto dest: remove_spines_returns)
  moreover from 6 have "u6 = u5" by (auto dest: get_ticks_returns)
  moreover from 8 have "s' = u7" by (auto dest: get_grid_returns)
  ultimately show thesis using that 1 5 6 7 by simp
qed

lemma set_up_chart_same:
  assumes "set_up_chart s = (tr, Inr s')" shows "same_inputs s s'"
proof -
  from assms obtain t1 s1 t3 where
    a: "get_min_max (s\<lparr>ax := Some (Subplot 111)\<rparr>) = (t1, Inr s1)"
    and b: "get_grid_range s1 = (t3, Inr s')"
    by (rule set_up_chart_returns)
  have "same_inputs s (s\<lparr>ax := Some (Subplot 111)\<rparr>)" by (simp add: same_inputs_def)
  with get_min_max_same [OF a] get_grid_range_same [OF b] show ?thesis
    by (blast intro: same_inputs_trans)
qed

lemma call_returns:
  assumes "call s = (tr, Inr s')"
  obtains t1 t2 t3 where "set_up_chart s = (t1, Inr s')" "plot s' = (t2, Inr s')"
    "include_text s' = (t3, Inr s')" "tr = t1 @ t2 @ t3 @ [Show]"
proof -
  from assms obtain a1 u1 a2 u2 a3 u3 a4 where
    1: "set_up_chart s = (a1, Inr u1)" and 2: "plot u1 = (a2, Inr u2)"
    and 3: "include_text u2 = (a3, Inr u3)" and 4: "show_figure u3 = (a4, Inr s')"
    and tr: "tr = a1 @ a2 @ a3 @ a4"
    unfolding call_def run_Cons_returns run_Nil_returns by auto
  from 2 have "u2 = u1" by (rule plot_returns)
  moreover from 3 have "u3 = u2" by (auto dest: include_text_returns)
  moreover from 4 have "s' = u3" "a4 = [Show]" by (auto dest: show_figure_returns)
  ultimately show thesis using that 1 2 3 tr by simp
qed

lemma call_same: "call s = (tr, Inr s') \<Longrightarrow> same_inputs s s'"
  by (erule call_returns) (rule set_up_chart_same)

lemma run_append:
  "run (fs @ gs) s =
     (case run fs s of
        (tr, Inl e) \<Rightarrow> (tr, Inl e)
      | (tr, Inr s') \<Rightarrow> (case run gs s' of (tr', r) \<Rightarrow> (tr @ tr', r)))"
  by (induction fs arbitrary: s) (auto split: prod.splits sum.splits)

lemma set_up_chart_split:
  "set_up_chart s =
     (case before_grid_range s of
        (tr, Inl e) \<Rightarrow> (tr, Inl e)
      | (tr, Inr s') \<Rightarrow> (case run [get_grid_range, get_grid] s' of (tr', r) \<Rightarrow> (tr @ tr', r)))"
proof -
  have h: "set_up_chart =
    run ([check_inputs, set_font, new_axes, remove_spines, get_min_max, get_ticks] @
         [get_grid_range, get_grid])"
    by (simp add: set_up_chart_def)
  show ?thesis
    unfolding before_grid_range_def h by (rule run_append)
qed

lemma returned: "\<not> isl (snd p) \<Longrightarrow> \<exists>tr s'. p = (tr, Inr s')"
  by (cases p; cases "snd p") auto

lemma before_grid_range_same:
  assumes "before_grid_range s = (tr, Inr s')" shows "same_inputs s s'"
proof -
  from assms obtain a1 u1 a2 u2 a3 u3 a4 u4 a5 u5 a6 where
    1: "check_inputs s = (a1, Inr u1)" and 2: "set_font u1 = (a2, Inr u2)"
    and 3: "new_axes u2 = (a3, Inr u3)" and 4: "remove_spines u3 = (a4, Inr u4)"
    and 5: "get_min_max u4 = (a5, Inr u5)" and 6: "get_ticks u5 = (a6, Inr s')"
    unfolding before_grid_range_def run_Cons_returns run_Nil_returns by blast
  from 1 have "u1 = s" by (auto dest: check_inputs_returns)
  moreover from 2 have "u2 = u1" by (auto dest: set_font_returns)
  moreover from 3 have "u3 = u2\<lparr>ax := Some (Subplot 111)\<rparr>" by (auto dest: new_axes_returns)
  moreover from 4 have "u4 = u3" by (auto dest: remove_spines_returns)
  moreover from 6 have "s' = u5" by (auto dest: get_ticks_returns)
  moreover note get_min_max_same [OF 5]
  ultimately show ?thesis by (simp add: same_inputs_def)
qed

section \<open>Validation\<close>

text \<open>
  Claim C1, as stated: constructing a SingleBarChart with a nested y raises
  InvalidInputException at construction time, before the render entry point is invoked.
  The constructor only stores its arguments and the bar positions: with the nested y of
  the repository's own test it returns the object.
\<close>

theorem SingleBarChart_constructor_accepts_nested_y:
  "new_SingleBarChart [XStr ''A'', XStr ''B''] (Some [YList [10, 30], YList [20, 40]])
     (Some 1) (Some 10) None None None None =
   Inr ((BasePlot_init SingleBarChart [XStr ''A'', XStr ''B'']
          (Some [YList [10, 30], YList [20, 40]]) (Some 1) (Some 10) None None None None)
        \<lparr>converted_x_data := [XInt 0, XInt 1]\<rparr>)"
  by (simp add: new_SingleBarChart_def positions_def upt_conv_Cons)

text \<open>
  Claim C1, amended: for every x (and every other argument), a SingleBarChart whose y has
  an element that is a list or an array is constructed without error, and calling it
  raises InvalidInputException before any pyplot call is made.
\<close>

theorem SingleBarChart_nested_y_fails_at_render:
  assumes "\<exists>y\<in>set ys. is_list y \<or> is_ndarray y"
  shows "\<exists>c. new_SingleBarChart x (Some ys) dx dy xl yl yd t = Inr c \<and>
             call c = ([], Inl InvalidInputException)"
proof -
  let ?c = "(BasePlot_init SingleBarChart x (Some ys) dx dy xl yl yd t)
              \<lparr>converted_x_data := positions x\<rparr>"
  have "cls ?c = SingleBarChart" and y: "y_data ?c = Some ys"
    by (simp_all add: BasePlot_init_def)
  then have "check_inputs ?c = SingleBarChart_check_inputs ?c"
    by (simp add: check_inputs_def)
  with assms y have "snd (check_inputs ?c) = Inl InvalidInputException"
    by (simp add: SingleBarChart_check_inputs_nested)
  then have "call ?c = ([], Inl InvalidInputException)"
    by (rule check_inputs_raises_call)
  then show ?thesis
    by (simp add: new_SingleBarChart_def)
qed

theorem SingleBarChart_nested_y_fails_at_render_witness:
  "(\<exists>y\<in>set [YList [10, 30], YList [20, 40]]. is_list y \<or> is_ndarray y) \<and>
   (\<exists>c. new_SingleBarChart [XStr ''A'', XStr ''B''] (Some [YList [10, 30], YList [20, 40]])
           (Some 1) (Some 10) None None None None = Inr c \<and>
        call c = ([], Inl InvalidInputException))"
proof -
  have h: "\<exists>y\<in>set [YList [10, 30], YList [20, 40]]. is_list y \<or> is_ndarray y" by simp
  from h SingleBarChart_nested_y_fails_at_render [OF h] show ?thesis by blast
qed

text \<open>
  Claim C3: for every class of chart and every state of the object, the validation hook
  makes no pyplot call; when it raises, \<^verbatim>\<open>set_up_chart\<close> and the render entry point
  raise the same exception with an empty trace (no font setting, no subplot, no spine
  removal, no ticks, no grid, no plot); and whenever a render made any call at all, the
  validation hook had returned.
\<close>

theorem validation_failure_precedes_every_call:
  "fst (check_inputs s) = [] \<and>
   (snd (check_inputs s) = Inl e \<longrightarrow> set_up_chart s = ([], Inl e) \<and> call s = ([], Inl e)) \<and>
   (fst (call s) \<noteq> [] \<longrightarrow> (\<exists>s'. check_inputs s = ([], Inr s')))"
proof (intro conjI impI)
  show "fst (check_inputs s) = []" by (rule check_inputs_silent)
next
  assume "snd (check_inputs s) = Inl e"
  then show "set_up_chart s = ([], Inl e)" "call s = ([], Inl e)"
    by (rule check_inputs_raises_call)+
next
  assume ne: "fst (call s) \<noteq> []"
  show "\<exists>s'. check_inputs s = ([], Inr s')"
  proof (cases "snd (check_inputs s)")
    case (Inl e)
    then have "call s = ([], Inl e)" by (rule check_inputs_raises_call)
    with ne show ?thesis by simp
  next
    case (Inr s')
    with check_inputs_silent [of s] have "check_inputs s = ([], Inr s')"
      by (cases "check_inputs s") simp
    then show ?thesis ..
  qed
qed

theorem validation_failure_precedes_every_call_witness:
  "snd (check_inputs
     ((BasePlot_init SingleBarChart [XStr ''A'', XStr ''B''] (Some [YList [10, 30], YList [20, 40]])
        (Some 1) (Some 10) None None None None)
      \<lparr>converted_x_data := positions [XStr ''A'', XStr ''B'']\<rparr>)) = Inl InvalidInputException \<and>
   call
     ((BasePlot_init SingleBarChart [XStr ''A'', XStr ''B''] (Some [YList [10, 30], YList [20, 40]])
        (Some 1) (Some 10) None None None None)
      \<lparr>converted_x_data := positions [XStr ''A'', XStr ''B'']\<rparr>) = ([], Inl InvalidInputException) \<and>
   fst (call (BasePlot_init LineChart [] (Some [YList [1, 2]]) (Some 1) (Some 10) None None None None))
     \<noteq> [] \<and>
   (\<exists>s'. check_inputs (BasePlot_init LineChart [] (Some [YList [1, 2]]) (Some 1) (Some 10) None None None None)
      = ([], Inr s'))"
proof -
  let ?c = "(BasePlot_init SingleBarChart [XStr ''A'', XStr ''B''] (Some [YList [10, 30], YList [20, 40]])
        (Some 1) (Some 10) None None None None)
      \<lparr>converted_x_data := positions [XStr ''A'', XStr ''B'']\<rparr>"
  let ?d = "BasePlot_init LineChart [] (Some [YList [1, 2]]) (Some 1) (Some 10) None None None None"
  have 1: "snd (check_inputs ?c) = Inl InvalidInputException"
    by (simp add: check_inputs_def SingleBarChart_check_inputs_def BasePlot_init_def)
  have 2: "fst (call ?d) \<noteq> []"
    by code_simp
  from 1 2 validation_failure_precedes_every_call [of ?c InvalidInputException]
    validation_failure_precedes_every_call [of ?d] show ?thesis by simp
qed

text \<open>
  Claim C4, as stated: validation of a SingleBarChart rejects every y that is not one flat
  sequence of the length of x, in particular a flat y of another length. The hook never
  looks at x: a flat y of three numbers with an x of two labels passes.
\<close>

theorem SingleBarChart_validation_ignores_length:
  "check_inputs
     ((BasePlot_init SingleBarChart [XStr ''A'', XStr ''B''] (Some [YNum 10, YNum 30, YNum 70])
        (Some 1) (Some 10) None None None None)
      \<lparr>converted_x_data := [XInt 0, XInt 1]\<rparr>) =
   ([], Inr ((BasePlot_init SingleBarChart [XStr ''A'', XStr ''B''] (Some [YNum 10, YNum 30, YNum 70])
        (Some 1) (Some 10) None None None None)
      \<lparr>converted_x_data := [XInt 0, XInt 1]\<rparr>))"
  by (simp add: check_inputs_def SingleBarChart_check_inputs_def BasePlot_init_def)

text \<open>
  Claim C4, amended: validation of a SingleBarChart raises InvalidInputException if and
  only if some element of y is a list or an array; otherwise it returns, whatever x and
  the length of y are.
\<close>

theorem SingleBarChart_validation_iff_nested:
  assumes "cls s = SingleBarChart" and "y_data s = Some ys"
  shows "check_inputs s =
           (if \<exists>y\<in>set ys. is_list y \<or> is_ndarray y then ([], Inl InvalidInputException)
            else ([], Inr s))"
  using assms by (simp add: check_inputs_def SingleBarChart_check_inputs_nested)

theorem SingleBarChart_validation_iff_nested_witness:
  "check_inputs
     ((BasePlot_init SingleBarChart [XStr ''A'', XStr ''B''] (Some [YNum 10, YArray [30, 70]])
        (Some 1) (Some 10) None None None None)
      \<lparr>converted_x_data := [XInt 0, XInt 1]\<rparr>) = ([], Inl InvalidInputException) \<and>
   check_inputs
     ((BasePlot_init SingleBarChart [XStr ''A'', XStr ''B''] (Some [YNum 10])
        (Some 1) (Some 10) None None None None)
      \<lparr>converted_x_data := [XInt 0, XInt 1]\<rparr>) =
   ([], Inr ((BasePlot_init SingleBarChart [XStr ''A'', XStr ''B''] (Some [YNum 10])
        (Some 1) (Some 10) None None None None)
      \<lparr>converted_x_data := [XInt 0, XInt 1]\<rparr>))"
  using
    SingleBarChart_validation_iff_nested
      [of "(BasePlot_init SingleBarChart [XStr ''A'', XStr ''B''] (Some [YNum 10, YArray [30, 70]])
        (Some 1) (Some 10) None None None None)
      \<lparr>converted_x_data := [XInt 0, XInt 1]\<rparr>" "[YNum 10, YArray [30, 70]]"]
    SingleBarChart_validation_iff_nested
      [of "(BasePlot_init SingleBarChart [XStr ''A'', XStr ''B''] (Some [YNum 10])
        (Some 1) (Some 10) None None None None)
      \<lparr>converted_x_data := [XInt 0, XInt 1]\<rparr>" "[YNum 10]"]
  by (simp add: BasePlot_init_def)

section \<open>The draw step\<close>

lemma length_tableau20: "length tableau20 = 20"
  by (simp add: tableau20_def tableau20_rgb_def)

lemma tableau20_at_simps:
  "i < 20 \<Longrightarrow> tableau20_at i = Inr (tableau20 ! i)"
  "20 \<le> i \<Longrightarrow> tableau20_at i = Inl IndexError"
  by (simp_all add: tableau20_at_def length_tableau20)

lemma label_at_ok:
  "enough_labels ds n \<Longrightarrow> i < n \<Longrightarrow> label_at ds i = Inr (legend_label ds i)"
  by (auto simp add: label_at_def legend_label_def enough_labels_def split: option.splits)

lemma label_at_error: "label_at ds i = Inl e \<Longrightarrow> e = IndexError"
  by (auto simp add: label_at_def split: option.splits if_splits)

lemma LineChart_plot_loop_ok:
  "i + length ys \<le> 20 \<Longrightarrow> enough_labels (y_descriptors s) (i + length ys) \<Longrightarrow>
   LineChart_plot_loop s i ys =
     (map (\<lambda>(k, y). Line (x_data s) y (tableau20 ! k) (legend_label (y_descriptors s) k))
        (enumerate i ys), Inr ())"
proof (induction ys arbitrary: i)
  case Nil
  then show ?case by simp
next
  case (Cons y ys)
  from Cons.prems have "i < 20" and "Suc i + length ys \<le> 20"
    and "enough_labels (y_descriptors s) (Suc i + length ys)" and "i < i + length (y # ys)"
    by simp_all
  with Cons.IH [of "Suc i"] Cons.prems(2) show ?case
    by (simp add: tableau20_at_simps label_at_ok [where n = "i + length (y # ys)"])
qed

lemma LineChart_plot_loop_too_many:
  "i \<le> 20 \<Longrightarrow> 20 < i + length ys \<Longrightarrow> snd (LineChart_plot_loop s i ys) = Inl IndexError"
proof (induction ys arbitrary: i)
  case Nil
  then show ?case by simp
next
  case (Cons y ys)
  show ?case
  proof (cases "i = 20")
    case True
    then show ?thesis by (simp add: tableau20_at_simps)
  next
    case False
    with Cons.prems have "i < 20" "Suc i \<le> 20" "20 < Suc i + length ys" by simp_all
    with Cons.IH [of "Suc i"] show ?thesis
      by (auto simp add: tableau20_at_simps split: sum.splits prod.splits dest: label_at_error)
  qed
qed

text \<open>
  Claim C2, as stated: a LineChart with k series draws k lines for every k, also beyond
  the 20 colours of the palette, with colour \<open>i mod 20\<close>. The source indexes the palette
  with the series index itself: with 21 series the render raises IndexError.
\<close>

theorem LineChart_with_21_series_raises:
  "snd (then_do (new_LineChart [XInt 0, XInt 1] (Some (replicate 21 (YList [1, 2])))
          (Some 1) (Some 10) None None None None) call) = Inl IndexError"
  by code_simp

text \<open>
  Claim C2, amended: for a LineChart with k series, k at most 20, and with legend labels
  that are absent, empty or at least k, the draw step makes exactly k calls, one line per
  series in order; line \<open>i\<close> has the colour at palette index \<open>i\<close> (which is
  \<open>i mod 20\<close>) and, when legend labels were supplied, the \<open>i\<close>-th legend label. With
  more than 20 series the draw step raises IndexError.
\<close>

theorem LineChart_plot_draws_one_line_per_series:
  assumes "y_data s = Some ys"
  shows "(length ys \<le> 20 \<and> enough_labels (y_descriptors s) (length ys) \<longrightarrow>
            LineChart_plot s =
              (map (\<lambda>(i, y). Line (x_data s) y (tableau20 ! (i mod 20))
                               (legend_label (y_descriptors s) i)) (enumerate 0 ys), Inr s)) \<and>
         (20 < length ys \<longrightarrow> snd (LineChart_plot s) = Inl IndexError)"
proof (intro conjI impI)
  assume a: "length ys \<le> 20 \<and> enough_labels (y_descriptors s) (length ys)"
  have "map (\<lambda>(i, y). Line (x_data s) y (tableau20 ! (i mod 20))
                               (legend_label (y_descriptors s) i)) (enumerate 0 ys) =
        map (\<lambda>(k, y). Line (x_data s) y (tableau20 ! k) (legend_label (y_descriptors s) k))
          (enumerate 0 ys)"
    using a by (intro map_cong refl) (auto simp add: in_set_enumerate_eq)
  with a assms LineChart_plot_loop_ok [of 0 ys s]
  show "LineChart_plot s =
              (map (\<lambda>(i, y). Line (x_data s) y (tableau20 ! (i mod 20))
                               (legend_label (y_descriptors s) i)) (enumerate 0 ys), Inr s)"
    by (simp add: LineChart_plot_def)
next
  assume "20 < length ys"
  with LineChart_plot_loop_too_many [of 0 ys s] assms
  show "snd (LineChart_plot s) = Inl IndexError"
    by (auto simp add: LineChart_plot_def split: prod.splits sum.splits)
qed

theorem LineChart_plot_draws_one_line_per_series_witness:
  "LineChart_plot
     (BasePlot_init LineChart [XInt 0, XInt 1] (Some [YList [10, 30], YList [20, 40]])
        (Some 1) (Some 10) None None (Some [''Line 1'', ''Line 2'']) None) =
   ([Line [XInt 0, XInt 1] (YList [10, 30]) (tableau20 ! 0) (Some ''Line 1''),
     Line [XInt 0, XInt 1] (YList [20, 40]) (tableau20 ! 1) (Some ''Line 2'')],
    Inr (BasePlot_init LineChart [XInt 0, XInt 1] (Some [YList [10, 30], YList [20, 40]])
        (Some 1) (Some 10) None None (Some [''Line 1'', ''Line 2'']) None)) \<and>
   snd (LineChart_plot
     (BasePlot_init LineChart [XInt 0, XInt 1] (Some (replicate 21 (YList [1, 2])))
        (Some 1) (Some 10) None None None None)) = Inl IndexError"
  using
    LineChart_plot_draws_one_line_per_series
      [of "BasePlot_init LineChart [XInt 0, XInt 1] (Some [YList [10, 30], YList [20, 40]])
             (Some 1) (Some 10) None None (Some [''Line 1'', ''Line 2'']) None"
          "[YList [10, 30], YList [20, 40]]"]
    LineChart_plot_draws_one_line_per_series
      [of "BasePlot_init LineChart [XInt 0, XInt 1] (Some (replicate 21 (YList [1, 2])))
             (Some 1) (Some 10) None None None None"
          "replicate 21 (YList [1, 2])"]
  by (simp add: BasePlot_init_def enough_labels_def legend_label_def)

lemma as_numbers_positions: "as_numbers (map (\<lambda>k. XInt (int k)) ks) = Inr (map (\<lambda>k. of_nat k) ks)"
  by (induction ks) simp_all

lemma MultipleBarChart_plot_loop_ok:
  "i + length ys \<le> 20 \<Longrightarrow> enough_labels (y_descriptors s) (i + length ys) \<Longrightarrow>
   MultipleBarChart_plot_loop s w st i ys =
     (map (\<lambda>(k, y). BarOfWidth (map (\<lambda>p. p + of_nat (k - i) * w) st) y w (tableau20 ! k)
                      (legend_label (y_descriptors s) k))
        (enumerate i ys), Inr ())"
proof (induction ys arbitrary: i st)
  case Nil
  then show ?case by simp
next
  case (Cons y ys)
  from Cons.prems have b: "i < 20" "Suc i + length ys \<le> 20"
    "enough_labels (y_descriptors s) (Suc i + length ys)" "i < i + length (y # ys)"
    by simp_all
  have shift: "map (\<lambda>(k, y). BarOfWidth (map (\<lambda>p. p + of_nat (k - Suc i) * w) (map (\<lambda>p. p + w) st))
                        y w (tableau20 ! k) (legend_label (y_descriptors s) k))
                 (enumerate (Suc i) ys) =
               map (\<lambda>(k, y). BarOfWidth (map (\<lambda>p. p + of_nat (k - i) * w) st)
                        y w (tableau20 ! k) (legend_label (y_descriptors s) k))
                 (enumerate (Suc i) ys)"
  proof (intro map_cong refl)
    fix z assume "z \<in> set (enumerate (Suc i) ys)"
    then have "Suc i \<le> fst z"
      by (simp add: in_set_enumerate_eq)
    then obtain k y' where z: "z = (k, y')" and k: "Suc i \<le> k"
      by (cases z) simp
    from k have "of_nat (k - i) = (of_nat (k - Suc i) :: rat) + 1"
      by (simp add: Suc_diff_le of_nat_diff)
    then show "(case z of (k, y) \<Rightarrow> BarOfWidth (map (\<lambda>p. p + of_nat (k - Suc i) * w) (map (\<lambda>p. p + w) st))
                        y w (tableau20 ! k) (legend_label (y_descriptors s) k)) =
               (case z of (k, y) \<Rightarrow> BarOfWidth (map (\<lambda>p. p + of_nat (k - i) * w) st)
                        y w (tableau20 ! k) (legend_label (y_descriptors s) k))"
      by (simp add: z algebra_simps)
  qed
  have "MultipleBarChart_plot_loop s w (map (\<lambda>p. p + w) st) (Suc i) ys =
          (map (\<lambda>(k, y). BarOfWidth (map (\<lambda>p. p + of_nat (k - i) * w) st)
                        y w (tableau20 ! k) (legend_label (y_descriptors s) k))
                 (enumerate (Suc i) ys), Inr ())"
    using Cons.IH [OF b(2) b(3), of "map (\<lambda>p. p + w) st"] by (simp only: shift)
  with b Cons.prems(2) show ?case
    by (simp add: tableau20_at_simps label_at_ok [where n = "i + length (y # ys)"])
qed

lemma MultipleBarChart_plot_loop_too_many:
  "i \<le> 20 \<Longrightarrow> 20 < i + length ys \<Longrightarrow> snd (MultipleBarChart_plot_loop s w st i ys) = Inl IndexError"
proof (induction ys arbitrary: i st)
  case Nil
  then show ?case by simp
next
  case (Cons y ys)
  show ?case
  proof (cases "i = 20")
    case True
    then show ?thesis by (simp add: tableau20_at_simps)
  next
    case False
    with Cons.prems have "i < 20" "Suc i \<le> 20" "20 < Suc i + length ys" by simp_all
    with Cons.IH [of "Suc i" "map (\<lambda>p. p + w) st"] show ?thesis
      by (auto simp add: tableau20_at_simps split: sum.splits prod.splits dest: label_at_error)
  qed
qed

text \<open>
  Claim C8, as stated: in every MultipleBarChart with n series, series \<open>i\<close> is drawn
  with palette colour \<open>i\<close>. The palette has 20 colours and the index is not reduced:
  with 21 series the render raises IndexError.
\<close>

theorem MultipleBarChart_with_21_series_raises:
  "snd (then_do (new_MultipleBarChart [XStr ''A'', XStr ''B'']
          (Some (replicate 21 (YList [1, 2]))) (Some 1) (Some 10) None None None None) call) =
   Inl IndexError"
  by code_simp

text \<open>
  Claim C8, amended: for a MultipleBarChart with n series of bar width w, n at most 20,
  and with legend labels that are absent, empty or at least n, the draw step makes
  exactly n bar calls, in the order of the series; series \<open>i\<close> is drawn at
  \<open>p - w * n / 2 + w / 2 + i * w\<close> for every integer position \<open>p\<close> (so the first at
  offset \<open>- w * n / 2 + w / 2\<close> and each next one bar width further right), with width
  w, palette colour \<open>i\<close> and, when legend labels were supplied, legend label \<open>i\<close>. With
  more than 20 series the draw step raises IndexError.
\<close>

theorem MultipleBarChart_plot_side_by_side:
  assumes "bar_width s = Some w" and "y_data s = Some ys" and "converted_x_data s = positions x"
  shows "(length ys \<le> 20 \<and> enough_labels (y_descriptors s) (length ys) \<longrightarrow>
           MultipleBarChart_plot s =
             (map (\<lambda>(i, y). BarOfWidth
                     (map (\<lambda>p. of_nat p - w * of_nat (length ys) / 2 + w / 2 + of_nat i * w)
                        [0..<length x])
                     y w (tableau20 ! i) (legend_label (y_descriptors s) i))
                (enumerate 0 ys), Inr s)) \<and>
         (20 < length ys \<longrightarrow> snd (MultipleBarChart_plot s) = Inl IndexError)"
proof (intro conjI impI)
  assume a: "length ys \<le> 20 \<and> enough_labels (y_descriptors s) (length ys)"
  have nums: "as_numbers (converted_x_data s) = Inr (map of_nat [0..<length x])"
    using assms(3) by (simp add: positions_def as_numbers_positions)
  from a MultipleBarChart_plot_loop_ok [of 0 ys s w
      "map (\<lambda>p. p - w * of_nat (length ys) / 2 + 5 / 10 * w) (map of_nat [0..<length x])"]
  show "MultipleBarChart_plot s =
             (map (\<lambda>(i, y). BarOfWidth
                     (map (\<lambda>p. of_nat p - w * of_nat (length ys) / 2 + w / 2 + of_nat i * w)
                        [0..<length x])
                     y w (tableau20 ! i) (legend_label (y_descriptors s) i))
                (enumerate 0 ys), Inr s)"
    by (simp add: MultipleBarChart_plot_def assms(1,2) nums comp_def)
next
  assume "20 < length ys"
  have nums: "as_numbers (converted_x_data s) = Inr (map of_nat [0..<length x])"
    using assms(3) by (simp add: positions_def as_numbers_positions)
  let ?st = "map (\<lambda>p. p - w * of_nat (length ys) / 2 + 5 / 10 * w) (map of_nat [0..<length x])"
  obtain tr r where l: "MultipleBarChart_plot_loop s w ?st 0 ys = (tr, r)"
    by fastforce
  with \<open>20 < length ys\<close> MultipleBarChart_plot_loop_too_many [of 0 ys s w ?st]
  have "r = Inl IndexError" by simp
  with l show "snd (MultipleBarChart_plot s) = Inl IndexError"
    by (simp add: MultipleBarChart_plot_def assms(1,2) nums Let_def)
qed

theorem MultipleBarChart_plot_side_by_side_witness:
  "MultipleBarChart_plot
     ((BasePlot_init MultipleBarChart [XStr ''A'', XStr ''B'']
         (Some [YList [10, 30], YList [20, 40], YList [5, 6]])
         (Some 1) (Some 10) None None (Some [''a'', ''b'', ''c'']) None)
      \<lparr>converted_x_data := positions [XStr ''A'', XStr ''B''], bar_width := Some (1 / 4)\<rparr>) =
   ([BarOfWidth [- (1 / 4), 3 / 4] (YList [10, 30]) (1 / 4) (tableau20 ! 0) (Some ''a''),
     BarOfWidth [0, 1] (YList [20, 40]) (1 / 4) (tableau20 ! 1) (Some ''b''),
     BarOfWidth [1 / 4, 5 / 4] (YList [5, 6]) (1 / 4) (tableau20 ! 2) (Some ''c'')],
    Inr ((BasePlot_init MultipleBarChart [XStr ''A'', XStr ''B'']
         (Some [YList [10, 30], YList [20, 40], YList [5, 6]])
         (Some 1) (Some 10) None None (Some [''a'', ''b'', ''c'']) None)
      \<lparr>converted_x_data := positions [XStr ''A'', XStr ''B''], bar_width := Some (1 / 4)\<rparr>)) \<and>
   snd (MultipleBarChart_plot
     ((BasePlot_init MultipleBarChart [XStr ''A'', XStr ''B'']
         (Some (replicate 21 (YList [1, 2]))) (Some 1) (Some 10) None None None None)
      \<lparr>converted_x_data := positions [XStr ''A'', XStr ''B''], bar_width := Some (1 / 10)\<rparr>)) =
   Inl IndexError"
  using
    MultipleBarChart_plot_side_by_side
      [of "(BasePlot_init MultipleBarChart [XStr ''A'', XStr ''B'']
         (Some [YList [10, 30], YList [20, 40], YList [5, 6]])
         (Some 1) (Some 10) None None (Some [''a'', ''b'', ''c'']) None)
      \<lparr>converted_x_data := positions [XStr ''A'', XStr ''B''], bar_width := Some (1 / 4)\<rparr>"
       "1 / 4" "[YList [10, 30], YList [20, 40], YList [5, 6]]" "[XStr ''A'', XStr ''B'']"]
    MultipleBarChart_plot_side_by_side
      [of "(BasePlot_init MultipleBarChart [XStr ''A'', XStr ''B'']
         (Some (replicate 21 (YList [1, 2]))) (Some 1) (Some 10) None None None None)
      \<lparr>converted_x_data := positions [XStr ''A'', XStr ''B''], bar_width := Some (1 / 10)\<rparr>"
       "1 / 10" "replicate 21 (YList [1, 2])" "[XStr ''A'', XStr ''B'']"]
  by (simp add: BasePlot_init_def enough_labels_def legend_label_def upt_conv_Cons numeral_2_eq_2 numeral_3_eq_3)

section \<open>The bar charts\<close>

text \<open>
  Claim C6: a MultipleBarChart built from a list of series has bar width 0.25 when there
  are fewer than 5 series and 0.1 otherwise (the constructor has no width argument), and
  a render that returns leaves the bar width as the constructor set it.
\<close>

theorem MultipleBarChart_bar_width:
  "\<exists>c. new_MultipleBarChart x (Some ys) dx dy xl yl yd t = Inr c \<and>
        bar_width c = Some (if length ys < 5 then 25 / 100 else 1 / 10) \<and>
        (\<forall>tr c'. call c = (tr, Inr c') \<longrightarrow> bar_width c' = bar_width c)"
  by (auto simp add: new_MultipleBarChart_def BasePlot_init_def dest!: call_same
      simp add: same_inputs_def)

theorem MultipleBarChart_bar_width_witness:
  "\<exists>c tr c'. new_MultipleBarChart [XStr ''A'', XStr ''B''] (Some [YList [10, 30], YList [20, 40]])
        (Some 1) (Some 10) None None None None = Inr c \<and>
      bar_width c = Some (25 / 100) \<and> call c = (tr, Inr c') \<and> bar_width c' = Some (25 / 100)"
proof -
  let ?new = "new_MultipleBarChart [XStr ''A'', XStr ''B''] (Some [YList [10, 30], YList [20, 40]])
        (Some 1) (Some 10) None None None None"
  from MultipleBarChart_bar_width [of "[XStr ''A'', XStr ''B'']" "[YList [10, 30], YList [20, 40]]"
      "Some 1" "Some 10" None None None None]
  obtain c where c: "?new = Inr c" "bar_width c = Some (25 / 100)"
    and keep: "\<forall>tr c'. call c = (tr, Inr c') \<longrightarrow> bar_width c' = bar_width c"
    by auto
  have "\<not> isl (snd (then_do ?new call))" by code_simp
  with c(1) have "\<not> isl (snd (call c))" by (simp add: then_do_def)
  then obtain tr c' where r: "call c = (tr, Inr c')" by (blast dest: returned)
  with keep c(2) have "bar_width c' = Some (25 / 100)" by simp
  with c r show ?thesis by blast
qed

lemma min_loop_least:
  "\<forall>k\<in>set ks. m \<le> k \<Longrightarrow>
   min_loop x_lt (XInt (int m)) (map (\<lambda>k. XInt (int k)) ks) = Inr (XInt (int m))"
  by (induction ks) simp_all

lemma max_loop_sorted:
  "sorted (m # ks) \<Longrightarrow>
   max_loop x_lt (XInt (int m)) (map (\<lambda>k. XInt (int k)) ks) = Inr (XInt (int (last (m # ks))))"
proof (induction ks arbitrary: m)
  case Nil
  then show ?case by simp
next
  case (Cons k ks)
  then have "m \<le> k" and s: "sorted (k # ks)" by simp_all
  show ?case
  proof (cases "m < k")
    case True
    with Cons.IH [OF s] show ?thesis by simp
  next
    case False
    with \<open>m \<le> k\<close> have "m = k" by simp
    with Cons.IH [OF s] show ?thesis by simp
  qed
qed

lemma py_min_sorted:
  "ks \<noteq> [] \<Longrightarrow> sorted ks \<Longrightarrow>
   py_min x_lt (map (\<lambda>k. XInt (int k)) ks) = Inr (XInt (int (hd ks)))"
  by (cases ks) (simp_all add: py_min_def min_loop_least)

lemma py_max_sorted:
  "ks \<noteq> [] \<Longrightarrow> sorted ks \<Longrightarrow>
   py_max x_lt (map (\<lambda>k. XInt (int k)) ks) = Inr (XInt (int (last ks)))"
  by (cases ks) (simp_all add: py_max_def max_loop_sorted del: last.simps)

lemma py_min_positions:
  "py_min x_lt (positions x) = (if x = [] then Inl ValueError else Inr (XInt 0))"
proof (cases "x = []")
  case True
  then show ?thesis by (simp add: py_min_def positions_def)
next
  case False
  then have "[0..<length x] \<noteq> []" by simp
  from py_min_sorted [OF this sorted_upt] False show ?thesis
    by (simp add: positions_def hd_upt)
qed

lemma py_max_positions:
  "py_max x_lt (positions x) =
     (if x = [] then Inl ValueError else Inr (XInt (int (length x) - 1)))"
proof (cases "x = []")
  case True
  then show ?thesis by (simp add: py_max_def positions_def)
next
  case False
  then have ne: "[0..<length x] \<noteq> []" and "0 < length x" by simp_all
  then have "int (last [0..<length x]) = int (length x) - 1"
    by (cases x) (simp_all add: last_upt)
  with py_max_sorted [OF ne sorted_upt] False show ?thesis
    by (simp add: positions_def)
qed

lemma BasePlot_get_min_max_positions:
  assumes "BasePlot_get_min_max s = (tr, Inr s')" and "converted_x_data s = positions x"
  shows "x \<noteq> [] \<and> min_x s' = Some (XInt 0) \<and> max_x s' = Some (XInt (int (length x) - 1)) \<and>
         (y_data s = Some [] \<longrightarrow> min_y s' = min_y s)"
  using assms
  by (auto simp add: BasePlot_get_min_max_def py_min_positions py_max_positions Let_def
      split: if_splits option.splits sum.splits prod.splits error.splits)

lemma BasePlot_get_ticks_min_y:
  "BasePlot_get_ticks s = (tr, Inr s') \<Longrightarrow> \<exists>n. min_y s = Some (YNum n)"
  by (cases "min_y s" rule: y_int.cases)
     (auto simp add: BasePlot_get_ticks_def tick_range_def split: sum.splits)

text \<open>Sorting the integer positions together with one value below and one above them.\<close>

lemma bar_grid_sorted:
  assumes "0 < pad" and "lo \<le> hi"
  shows "bar_grid lo hi pad = (of_int lo - pad) # map of_int [lo..hi] @ [of_int hi + pad]"
proof -
  let ?r = "(of_int lo - pad) # map of_int [lo..hi] @ [of_int hi + pad]"
  have "sorted (map rat_of_int [lo..hi])"
    by (simp add: sorted_map sorted_wrt_mono_rel [OF _ sorted_upto])
  moreover have "\<forall>z\<in>set [lo..hi]. rat_of_int lo - pad \<le> of_int z \<and> rat_of_int z \<le> of_int hi + pad"
    using assms by (auto simp add: algebra_simps intro: order_trans [OF _ less_imp_le])
  ultimately have "sorted ?r"
    using assms by (auto simp add: sorted_append)
  moreover have "mset ?r = mset (map of_int [lo..hi] @ [of_int lo - pad] @ [of_int hi + pad])"
    by simp
  ultimately show ?thesis
    unfolding bar_grid_def by (metis properties_for_sort)
qed


lemma sorted_padded_positions: "0 < pad \<Longrightarrow> lo \<le> hi \<Longrightarrow> sorted (padded_positions lo hi pad)"
proof -
  assume "0 < pad" "lo \<le> hi"
  then have "padded_positions lo hi pad = bar_grid lo hi pad"
    by (simp add: bar_grid_sorted padded_positions_def)
  then show ?thesis by (simp add: bar_grid_def)
qed

lemma bar_set_up:
  assumes c: "converted_x_data c = positions x" and cls: "cls c \<noteq> Histogram"
    and s: "set_up_chart c = (tr, Inr c')"
  obtains s1 t2 t3 where "x \<noteq> []" "min_x s1 = Some (XInt 0)"
    "max_x s1 = Some (XInt (int (length x) - 1))" "same_inputs c s1"
    "y_data c = Some [] \<longrightarrow> min_y s1 = min_y c"
    "BasePlot_get_ticks s1 = (t2, Inr s1)" "get_grid_range s1 = (t3, Inr c')"
proof -
  from s obtain t1 s1 t2 t3 where
    a: "get_min_max (c\<lparr>ax := Some (Subplot 111)\<rparr>) = (t1, Inr s1)"
    and b: "get_ticks s1 = (t2, Inr s1)"
    and g: "get_grid_range s1 = (t3, Inr c')"
    by (rule set_up_chart_returns)
  from a cls have a': "BasePlot_get_min_max (c\<lparr>ax := Some (Subplot 111)\<rparr>) = (t1, Inr s1)"
    by (simp add: get_min_max_def split: chart_class.splits)
  from get_min_max_same [OF a] have same: "same_inputs c s1"
    by (simp add: same_inputs_def)
  with cls b have b': "BasePlot_get_ticks s1 = (t2, Inr s1)"
    by (simp add: get_ticks_def same_inputs_def split: chart_class.splits)
  from BasePlot_get_min_max_positions [OF a', of x] c
  have "x \<noteq> []" "min_x s1 = Some (XInt 0)" "max_x s1 = Some (XInt (int (length x) - 1))"
    "y_data c = Some [] \<longrightarrow> min_y s1 = min_y c"
    by simp_all
  with same b' g show thesis by (blast intro: that)
qed

text \<open>
  Claim C7: whenever \<^verbatim>\<open>set_up_chart\<close> returns on a SingleBarChart or on a
  MultipleBarChart, x is not empty, the x range is 0 to \<open>len(x) - 1\<close>, and the grid
  range is the ascending list of the integer positions of that range, preceded by the
  minimum minus the padding and followed by the maximum plus the padding; the padding is
  positive, half the default bar width for a SingleBarChart and
  \<open>bar_width * len(y_data) / 2\<close> for a MultipleBarChart.
\<close>

theorem bar_charts_grid_range:
  "(new_SingleBarChart x y dx dy xl yl yd t = Inr c \<and> set_up_chart c = (tr, Inr c') \<longrightarrow>
      x \<noteq> [] \<and> min_x c' = Some (XInt 0) \<and> max_x c' = Some (XInt (int (length x) - 1)) \<and>
      grid_range c' =
        Some (padded_positions 0 (int (length x) - 1) (DEFAULT_BAR_WIDTH / 2)) \<and>
      0 < DEFAULT_BAR_WIDTH / 2 \<and>
      sorted (padded_positions 0 (int (length x) - 1) (DEFAULT_BAR_WIDTH / 2))) \<and>
   (new_MultipleBarChart x (Some ys) dx dy xl yl yd t = Inr d \<and> bar_width d = Some w \<and>
    set_up_chart d = (tr', Inr d') \<longrightarrow>
      x \<noteq> [] \<and> min_x d' = Some (XInt 0) \<and> max_x d' = Some (XInt (int (length x) - 1)) \<and>
      grid_range d' =
        Some (padded_positions 0 (int (length x) - 1) (w * of_nat (length ys) / 2)) \<and>
      0 < w * of_nat (length ys) / 2 \<and>
      sorted (padded_positions 0 (int (length x) - 1) (w * of_nat (length ys) / 2)))"
proof (rule conjI; rule impI)
  assume "new_SingleBarChart x y dx dy xl yl yd t = Inr c \<and> set_up_chart c = (tr, Inr c')"
  then have c: "converted_x_data c = positions x" "cls c = SingleBarChart"
    and s: "set_up_chart c = (tr, Inr c')"
    by (auto simp add: new_SingleBarChart_def BasePlot_init_def)
  from c(2) have "cls c \<noteq> Histogram" by simp
  from c(1) this s obtain s1 t3 where x: "x \<noteq> []" and lo: "min_x s1 = Some (XInt 0)"
    and hi: "max_x s1 = Some (XInt (int (length x) - 1))" and same: "same_inputs c s1"
    and g: "get_grid_range s1 = (t3, Inr c')"
    by (rule bar_set_up)
  from x have le: "0 \<le> int (length x) - 1" by (cases x) simp_all
  have pad: "0 < DEFAULT_BAR_WIDTH / 2" by (simp add: DEFAULT_BAR_WIDTH_def)
  from same c(2) have "cls s1 = SingleBarChart" by (simp add: same_inputs_def)
  with g lo hi have "c' = s1\<lparr>grid_range :=
      Some (bar_grid 0 (int (length x) - 1) (5 / 10 * DEFAULT_BAR_WIDTH))\<rparr>"
    by (simp add: get_grid_range_def SingleBarChart_get_grid_range_def)
  with lo hi bar_grid_sorted [OF pad le]
  have "min_x c' = Some (XInt 0)" "max_x c' = Some (XInt (int (length x) - 1))"
    "grid_range c' = Some (padded_positions 0 (int (length x) - 1) (DEFAULT_BAR_WIDTH / 2))"
    by (simp_all add: padded_positions_def)
  with x pad sorted_padded_positions [OF pad le]
  show "x \<noteq> [] \<and> min_x c' = Some (XInt 0) \<and> max_x c' = Some (XInt (int (length x) - 1)) \<and>
      grid_range c' =
        Some (padded_positions 0 (int (length x) - 1) (DEFAULT_BAR_WIDTH / 2)) \<and>
      0 < DEFAULT_BAR_WIDTH / 2 \<and>
      sorted (padded_positions 0 (int (length x) - 1) (DEFAULT_BAR_WIDTH / 2))"
    by simp
next
  assume "new_MultipleBarChart x (Some ys) dx dy xl yl yd t = Inr d \<and> bar_width d = Some w \<and>
    set_up_chart d = (tr', Inr d')"
  then have d: "converted_x_data d = positions x" "cls d = MultipleBarChart"
    "y_data d = Some ys" "min_y d = None"
    and w: "bar_width d = Some w" "0 < w"
    and s: "set_up_chart d = (tr', Inr d')"
    by (auto simp add: new_MultipleBarChart_def BasePlot_init_def split: if_splits)
  from d(2) have "cls d \<noteq> Histogram" by simp
  from d(1) this s obtain s1 t2 t3 where x: "x \<noteq> []" and lo: "min_x s1 = Some (XInt 0)"
    and hi: "max_x s1 = Some (XInt (int (length x) - 1))" and same: "same_inputs d s1"
    and my: "y_data d = Some [] \<longrightarrow> min_y s1 = min_y d"
    and tk: "BasePlot_get_ticks s1 = (t2, Inr s1)"
    and g: "get_grid_range s1 = (t3, Inr d')"
    by (rule bar_set_up)
  from BasePlot_get_ticks_min_y [OF tk] my d(3,4) have ys: "ys \<noteq> []" by auto
  with w have pad: "0 < w * of_nat (length ys) / 2" by simp
  from x have le: "0 \<le> int (length x) - 1" by (cases x) simp_all
  from same d w have "cls s1 = MultipleBarChart" "y_data s1 = Some ys" "bar_width s1 = Some w"
    by (simp_all add: same_inputs_def)
  with g lo hi have "d' = s1\<lparr>grid_range :=
      Some (bar_grid 0 (int (length x) - 1) (w * of_nat (length ys) / 2))\<rparr>"
    by (simp add: get_grid_range_def MultipleBarChart_get_grid_range_def)
  with lo hi bar_grid_sorted [OF pad le]
  have "min_x d' = Some (XInt 0)" "max_x d' = Some (XInt (int (length x) - 1))"
    "grid_range d' = Some (padded_positions 0 (int (length x) - 1) (w * of_nat (length ys) / 2))"
    by (simp_all add: padded_positions_def)
  with x pad sorted_padded_positions [OF pad le]
  show "x \<noteq> [] \<and> min_x d' = Some (XInt 0) \<and> max_x d' = Some (XInt (int (length x) - 1)) \<and>
      grid_range d' =
        Some (padded_positions 0 (int (length x) - 1) (w * of_nat (length ys) / 2)) \<and>
      0 < w * of_nat (length ys) / 2 \<and>
      sorted (padded_positions 0 (int (length x) - 1) (w * of_nat (length ys) / 2))"
    by simp
qed

theorem bar_charts_grid_range_witness:
  "(\<exists>c tr c'. new_SingleBarChart [XStr ''A'', XStr ''B''] (Some [YNum 10, YNum 30])
        (Some 1) (Some 10) None None None None = Inr c \<and>
      set_up_chart c = (tr, Inr c') \<and> grid_range c' = Some [- (2 / 5), 0, 1, 7 / 5]) \<and>
   (\<exists>d tr d'. new_MultipleBarChart [XStr ''A'', XStr ''B''] (Some [YList [10, 30], YList [20, 40]])
        (Some 1) (Some 10) None None None None = Inr d \<and> bar_width d = Some (1 / 4) \<and>
      set_up_chart d = (tr, Inr d') \<and> grid_range d' = Some [- (1 / 4), 0, 1, 5 / 4])"
proof (rule conjI)
  let ?new = "new_SingleBarChart [XStr ''A'', XStr ''B''] (Some [YNum 10, YNum 30])
        (Some 1) (Some 10) None None None None"
  obtain c where c: "?new = Inr c" by (simp add: new_SingleBarChart_def)
  have "\<not> isl (snd (then_do ?new set_up_chart))" by code_simp
  with c have "\<not> isl (snd (set_up_chart c))" by (simp add: then_do_def)
  then obtain tr c' where r: "set_up_chart c = (tr, Inr c')" by (blast dest: returned)
  from bar_charts_grid_range [THEN conjunct1, rule_format, OF conjI, OF c r]
  have "grid_range c' = Some [- (2 / 5), 0, 1, 7 / 5]"
    by (simp add: padded_positions_def DEFAULT_BAR_WIDTH_def upto_rec1)
  with c r show "\<exists>c tr c'. ?new = Inr c \<and>
      set_up_chart c = (tr, Inr c') \<and> grid_range c' = Some [- (2 / 5), 0, 1, 7 / 5]"
    by blast
next
  let ?new = "new_MultipleBarChart [XStr ''A'', XStr ''B''] (Some [YList [10, 30], YList [20, 40]])
        (Some 1) (Some 10) None None None None"
  obtain d where d: "?new = Inr d" "bar_width d = Some (1 / 4)"
    by (simp add: new_MultipleBarChart_def)
  have "\<not> isl (snd (then_do ?new set_up_chart))" by code_simp
  with d have "\<not> isl (snd (set_up_chart d))" by (simp add: then_do_def)
  then obtain tr d' where r: "set_up_chart d = (tr, Inr d')" by (blast dest: returned)
  from d r have "new_MultipleBarChart [XStr ''A'', XStr ''B''] (Some [YList [10, 30], YList [20, 40]])
        (Some 1) (Some 10) None None None None = Inr d \<and> bar_width d = Some (1 / 4) \<and>
      set_up_chart d = (tr, Inr d')" by simp
  from bar_charts_grid_range [THEN conjunct2, rule_format, OF this]
  have "grid_range d' = Some [- (1 / 4), 0, 1, 5 / 4]"
    by (simp add: padded_positions_def upto_rec1)
  with d r show "\<exists>d tr d'. ?new = Inr d \<and> bar_width d = Some (1 / 4) \<and>
      set_up_chart d = (tr, Inr d') \<and> grid_range d' = Some [- (1 / 4), 0, 1, 5 / 4]"
    by blast
qed

section \<open>The abstract hooks\<close>

text \<open>
  Claim C9, as stated: calling a BasePlot raises NotImplementedError. The hooks come
  after the range and tick computations: with labels on the x axis, \<^verbatim>\<open>get_ticks\<close>
  raises TypeError first.
\<close>

theorem BasePlot_with_labels_raises_TypeError:
  "snd (then_do (new_BasePlot [XStr ''A'', XStr ''B''] (Some [YNum 10, YNum 30])
          (Some 1) (Some 10) None None None None) call) = Inl TypeError"
  by code_simp

text \<open>
  Claim C9, amended: \<^verbatim>\<open>BasePlot.get_grid_range\<close> and \<^verbatim>\<open>BasePlot.plot\<close> raise
  NotImplementedError. Calling an object of class BasePlot never returns: when the
  statements before \<^verbatim>\<open>get_grid_range\<close> return, the call raises NotImplementedError,
  and when one of them raises, the call raises that exception.
\<close>

theorem BasePlot_render_never_returns:
  "BasePlot_get_grid_range s = ([], Inl NotImplementedError) \<and>
   BasePlot_plot s = ([], Inl NotImplementedError) \<and>
   (cls s = BasePlot \<longrightarrow>
      isl (snd (call s)) \<and>
      (\<forall>tr s'. before_grid_range s = (tr, Inr s') \<longrightarrow> call s = (tr, Inl NotImplementedError)) \<and>
      (\<forall>tr e. before_grid_range s = (tr, Inl e) \<longrightarrow> call s = (tr, Inl e)))"
proof (intro conjI impI allI)
  show "BasePlot_get_grid_range s = ([], Inl NotImplementedError)"
    by (simp add: BasePlot_get_grid_range_def)
  show "BasePlot_plot s = ([], Inl NotImplementedError)"
    by (simp add: BasePlot_plot_def)
next
  fix tr e assume "before_grid_range s = (tr, Inl e)"
  then have "set_up_chart s = (tr, Inl e)" by (simp add: set_up_chart_split)
  then show "call s = (tr, Inl e)" unfolding call_def by (rule run_first_raises)
next
  fix tr s' assume b: "cls s = BasePlot" and r: "before_grid_range s = (tr, Inr s')"
  from before_grid_range_same [OF r] b have "cls s' = BasePlot" by (simp add: same_inputs_def)
  then have "get_grid_range s' = ([], Inl NotImplementedError)"
    by (simp add: get_grid_range_def BasePlot_get_grid_range_def)
  with r have "set_up_chart s = (tr, Inl NotImplementedError)"
    by (simp add: set_up_chart_split)
  then show "call s = (tr, Inl NotImplementedError)" unfolding call_def by (rule run_first_raises)
next
  assume b: "cls s = BasePlot"
  obtain tr r where br: "before_grid_range s = (tr, r)" by fastforce
  show "isl (snd (call s))"
  proof (cases r)
    case (Inl e)
    with br have "set_up_chart s = (tr, Inl e)" by (simp add: set_up_chart_split)
    then have "call s = (tr, Inl e)" unfolding call_def by (rule run_first_raises)
    then show ?thesis by simp
  next
    case (Inr s')
    with before_grid_range_same [of s tr s'] br b have "cls s' = BasePlot"
      by (simp add: same_inputs_def)
    then have "get_grid_range s' = ([], Inl NotImplementedError)"
      by (simp add: get_grid_range_def BasePlot_get_grid_range_def)
    with br Inr have "set_up_chart s = (tr, Inl NotImplementedError)"
      by (simp add: set_up_chart_split)
    then have "call s = (tr, Inl NotImplementedError)" unfolding call_def by (rule run_first_raises)
    then show ?thesis by simp
  qed
qed

theorem BasePlot_render_never_returns_witness:
  "cls (BasePlot_init BasePlot [XInt 0, XInt 1] (Some [YNum 10, YNum 30])
          (Some 1) (Some 10) None None None None) = BasePlot \<and>
   snd (call (BasePlot_init BasePlot [XInt 0, XInt 1] (Some [YNum 10, YNum 30])
          (Some 1) (Some 10) None None None None)) = Inl NotImplementedError \<and>
   snd (before_grid_range (BasePlot_init BasePlot [] (Some [YNum 10, YNum 30])
          (Some 1) (Some 10) None None None None)) = Inl ValueError \<and>
   snd (call (BasePlot_init BasePlot [] (Some [YNum 10, YNum 30])
          (Some 1) (Some 10) None None None None)) = Inl ValueError"
proof -
  let ?s = "BasePlot_init BasePlot [XInt 0, XInt 1] (Some [YNum 10, YNum 30])
          (Some 1) (Some 10) None None None None"
  let ?u = "BasePlot_init BasePlot [] (Some [YNum 10, YNum 30])
          (Some 1) (Some 10) None None None None"
  have c: "cls ?s = BasePlot" "cls ?u = BasePlot" by (simp_all add: BasePlot_init_def)
  have "\<not> isl (snd (before_grid_range ?s))" by code_simp
  then obtain tr s' where 1: "before_grid_range ?s = (tr, Inr s')"
    by (blast dest: returned)
  have u: "snd (before_grid_range ?u) = Inl ValueError" by code_simp
  then obtain tr' where 2: "before_grid_range ?u = (tr', Inl ValueError)"
    by (cases "before_grid_range ?u") auto
  from c 1 2 u BasePlot_render_never_returns [of ?s] BasePlot_render_never_returns [of ?u] show ?thesis by simp
qed

section \<open>The display flushes\<close>

lemma run_no_show:
  "run fs s = (tr, res) \<Longrightarrow> (\<And>f u t r. f \<in> set fs \<Longrightarrow> f u = (t, r) \<Longrightarrow> Show \<notin> set t) \<Longrightarrow>
   Show \<notin> set tr"
proof (induction fs arbitrary: s tr res)
  case Nil
  then show ?case by simp
next
  case (Cons f fs)
  obtain t r where f: "f s = (t, r)" by fastforce
  with Cons.prems(2) [of f s t r] have t: "Show \<notin> set t" by simp
  show ?case
  proof (cases r)
    case (Inl e)
    with f Cons.prems(1) t show ?thesis by simp
  next
    case (Inr u)
    obtain t' r' where r: "run fs u = (t', r')" by fastforce
    have "Show \<notin> set t'"
    proof (rule Cons.IH [OF r])
      fix g v a b assume "g \<in> set fs" "g v = (a, b)"
      with Cons.prems(2) [of g v a b] show "Show \<notin> set a" by simp
    qed
    with f Inr r Cons.prems(1) t show ?thesis by auto
  qed
qed

lemma LineChart_plot_loop_no_show:
  "LineChart_plot_loop s i ys = (tr, r) \<Longrightarrow> Show \<notin> set tr"
proof (induction ys arbitrary: i tr r)
  case Nil
  then show ?case by simp
next
  case (Cons y ys)
  obtain t' r' where l: "LineChart_plot_loop s (Suc i) ys = (t', r')" by fastforce
  from Cons.IH [OF l] have "Show \<notin> set t'" .
  with Cons.prems l show ?case by (auto split: sum.splits)
qed

lemma MultipleBarChart_plot_loop_no_show:
  "MultipleBarChart_plot_loop s w st i ys = (tr, r) \<Longrightarrow> Show \<notin> set tr"
proof (induction ys arbitrary: i st tr r)
  case Nil
  then show ?case by simp
next
  case (Cons y ys)
  obtain t' r' where l: "MultipleBarChart_plot_loop s w (map (\<lambda>p. p + w) st) (Suc i) ys = (t', r')"
    by fastforce
  from Cons.IH [OF l] have "Show \<notin> set t'" .
  with Cons.prems l show ?case by (auto split: sum.splits)
qed

lemma LineChart_plot_no_show: "LineChart_plot s = (tr, r) \<Longrightarrow> Show \<notin> set tr"
  by (auto simp add: LineChart_plot_def split: option.splits prod.splits sum.splits
      dest: LineChart_plot_loop_no_show)

lemma MultipleBarChart_plot_no_show: "MultipleBarChart_plot s = (tr, r) \<Longrightarrow> Show \<notin> set tr"
  by (auto simp add: MultipleBarChart_plot_def Let_def split: option.splits prod.splits sum.splits
      dest: MultipleBarChart_plot_loop_no_show)

lemma plot_no_show: "plot s = (tr, r) \<Longrightarrow> Show \<notin> set tr"
  by (cases "cls s")
     (auto simp add: plot_def BasePlot_plot_def SingleBarChart_plot_def Histogram_plot_def
      split: sum.splits option.splits
      dest: LineChart_plot_no_show MultipleBarChart_plot_no_show)


lemma get_min_max_silent: "get_min_max s = (tr, r) \<Longrightarrow> tr = []"
  by (cases "cls s")
     (auto simp add: get_min_max_def Histogram_get_min_max_def BasePlot_get_min_max_def Let_def
      split: sum.splits prod.splits option.splits error.splits if_splits)

lemma get_grid_range_silent: "get_grid_range s = (tr, r) \<Longrightarrow> tr = []"
  by (cases "cls s")
     (auto simp add: get_grid_range_def BasePlot_get_grid_range_def LineChart_get_grid_range_def
      SingleBarChart_get_grid_range_def MultipleBarChart_get_grid_range_def
      Histogram_get_grid_range_def
      split: sum.splits prod.splits option.splits)

lemma get_ticks_no_show: "get_ticks s = (tr, r) \<Longrightarrow> Show \<notin> set tr"
  by (cases "cls s")
     (auto simp add: get_ticks_def BasePlot_get_ticks_def Histogram_get_ticks_def
      split: sum.splits prod.splits)

lemma get_grid_no_show: "get_grid s = (tr, r) \<Longrightarrow> Show \<notin> set tr"
  by (auto simp add: get_grid_def split: sum.splits option.splits if_splits)

lemma set_up_chart_no_show:
  assumes "set_up_chart s = (tr, r)" shows "Show \<notin> set tr"
proof (rule run_no_show [OF assms [unfolded set_up_chart_def]])
  fix f u t r'
  assume "f \<in> set [check_inputs, set_font, new_axes, remove_spines, get_min_max, get_ticks,
    get_grid_range, get_grid]" and f: "f u = (t, r')"
  then consider "f = check_inputs" | "f = set_font" | "f = new_axes" | "f = remove_spines"
    | "f = get_min_max" | "f = get_ticks" | "f = get_grid_range" | "f = get_grid"
    by auto
  then show "Show \<notin> set t"
  proof cases
    case 1
    with f check_inputs_silent [of u] show ?thesis by simp
  next
    case 2
    with f show ?thesis by (auto simp add: set_font_def)
  next
    case 3
    with f show ?thesis by (auto simp add: new_axes_def)
  next
    case 4
    with f show ?thesis by (auto simp add: remove_spines_def split: option.splits)
  next
    case 5
    with f get_min_max_silent [of u t r'] show ?thesis by simp
  next
    case 6
    with f show ?thesis by (simp add: get_ticks_no_show)
  next
    case 7
    with f get_grid_range_silent [of u t r'] show ?thesis by simp
  next
    case 8
    with f show ?thesis by (simp add: get_grid_no_show)
  qed
qed

lemma include_text_ends_with_show:
  "\<exists>a. fst (include_text s) = a @ [Show] \<and> Show \<notin> set a"
  by (auto simp add: include_text_def split: option.splits)

text \<open>
  Claim C10: a render that returns, of a chart of any class, has made exactly two
  \<^verbatim>\<open>plt.show()\<close> calls: its trace is the calls of the set-up and draw stages, which
  contain no \<^verbatim>\<open>plt.show()\<close>, then the calls of \<^verbatim>\<open>include_text\<close>, whose last call
  (and no other) is \<^verbatim>\<open>plt.show()\<close>, then the \<^verbatim>\<open>plt.show()\<close> of \<^verbatim>\<open>__call__\<close>.
\<close>

theorem render_shows_twice:
  assumes "call s = (tr, Inr s')"
  shows "(\<exists>before text. tr = before @ text @ [Show] \<and> Show \<notin> set before \<and>
            fst (include_text s') = text \<and> (\<exists>a. text = a @ [Show] \<and> Show \<notin> set a)) \<and>
         count_list tr Show = 2"
proof -
  from assms obtain t1 t2 t3 where 1: "set_up_chart s = (t1, Inr s')"
    and 2: "plot s' = (t2, Inr s')" and 3: "include_text s' = (t3, Inr s')"
    and tr: "tr = t1 @ t2 @ t3 @ [Show]"
    by (rule call_returns)
  from include_text_ends_with_show [of s'] 3 obtain a where a: "t3 = a @ [Show]" "Show \<notin> set a"
    by auto
  from set_up_chart_no_show [OF 1] plot_no_show [OF 2]
  have n: "Show \<notin> set (t1 @ t2)" by simp
  with a have "count_list (t1 @ t2) Show = 0" "count_list a Show = 0"
    by (simp_all only: count_list_0_iff not_False_eq_True)
  with tr a have c: "count_list tr Show = 2" by simp
  from tr have "tr = (t1 @ t2) @ t3 @ [Show]" by simp
  with n 3 a have "\<exists>before text. tr = before @ text @ [Show] \<and> Show \<notin> set before \<and>
            fst (include_text s') = text \<and> (\<exists>a. text = a @ [Show] \<and> Show \<notin> set a)"
    by (intro exI [of _ "t1 @ t2"] exI [of _ t3]) simp
  with c show ?thesis by simp
qed

theorem render_shows_twice_witness:
  "\<exists>tr s'. call (BasePlot_init LineChart [XInt 0, XInt 1, XInt 2, XInt 3, XInt 4]
       (Some [YList [10, 30, 70, 100, 150], YList [20, 40, 80, 120, 30]]) (Some 1) (Some 10)
       (Some ''Sample x-axis'') None (Some [''Line 1'', ''Line 2'']) (Some ''Sample plot'')) =
     (tr, Inr s') \<and> count_list tr Show = 2"
proof -
  let ?c = "BasePlot_init LineChart [XInt 0, XInt 1, XInt 2, XInt 3, XInt 4]
       (Some [YList [10, 30, 70, 100, 150], YList [20, 40, 80, 120, 30]]) (Some 1) (Some 10)
       (Some ''Sample x-axis'') None (Some [''Line 1'', ''Line 2'']) (Some ''Sample plot'')"
  have "\<not> isl (snd (call ?c))" by code_simp
  then obtain tr s' where r: "call ?c = (tr, Inr s')" by (blast dest: returned)
  from render_shows_twice [OF r] have "count_list tr Show = 2" by simp
  with r show ?thesis by blast
qed

section \<open>The histogram\<close>

lemma hist_loop_all:
  "\<forall>a\<in>set xs. \<exists>counts edges. hist a n = Inr (counts, edges) \<Longrightarrow>
   hist_loop hist n xs bs vs =
     Inr (bs @ concat (map (\<lambda>a. bin_edges hist a n) xs),
          vs @ concat (map (\<lambda>a. bin_counts hist a n) xs))"
proof (induction xs arbitrary: bs vs)
  case Nil
  then show ?case by simp
next
  case (Cons a xs)
  from Cons.prems obtain counts edges where h: "hist a n = Inr (counts, edges)" by auto
  from Cons.prems have "\<forall>a\<in>set xs. \<exists>counts edges. hist a n = Inr (counts, edges)" by simp
  from Cons.IH [OF this] h show ?case
    by (simp add: bin_edges_def bin_counts_def)
qed

lemma max_loop_int: "max_loop int_lt m vs = Inr (Max (set (m # vs)))"
proof (induction vs arbitrary: m)
  case Nil
  then show ?case by simp
next
  case (Cons v vs)
  have "Max (set ((if m < v then v else m) # vs)) = Max (set (m # v # vs))"
  proof (cases "vs = []")
    case True
    then show ?thesis by (simp add: max_def)
  next
    case False
    then show ?thesis by (auto simp add: max_def)
  qed
  with Cons.IH [of "if m < v then v else m"] show ?case
    by (simp add: int_lt_def)
qed

lemma py_max_int: "vs \<noteq> [] \<Longrightarrow> py_max int_lt vs = Inr (Max (set vs))"
  by (cases vs) (simp_all add: py_max_def max_loop_int del: set_simps)

text \<open>
  Claim C5: for a Histogram built from one or more input sequences with a bin count of
  at least 1, whatever function bins each sequence (as long as it returns, for every
  sequence, as many counts as there are bins), the constructor returns an object whose
  y minimum is 0 and whose y maximum is the largest count over all bins of all
  sequences; \<^verbatim>\<open>get_min_max\<close> leaves both as they are.
\<close>

theorem Histogram_y_range:
  assumes "x \<noteq> []" and "1 \<le> n"
    and "\<forall>a\<in>set x. \<exists>counts edges. hist a n = Inr (counts, edges) \<and> length counts = nat n"
  shows "\<exists>c. new_Histogram hist x n dx dy xl yl yd t = Inr c \<and>
             min_y c = Some (YNum 0) \<and>
             max_y c = Some (YNum (Max (\<Union>a\<in>set x. set (bin_counts hist a n)))) \<and>
             get_min_max c = ([], Inr c)"
proof -
  let ?vs = "concat (map (\<lambda>a. bin_counts hist a n) x)"
  from assms(3) have all: "\<forall>a\<in>set x. \<exists>counts edges. hist a n = Inr (counts, edges)" by blast
  from assms(1) obtain a where a: "a \<in> set x" by (cases x) auto
  with assms(3) obtain counts edges where "hist a n = Inr (counts, edges)" "length counts = nat n"
    by blast
  with assms(2) have "bin_counts hist a n \<noteq> []" by (auto simp add: bin_counts_def)
  with a have ne: "?vs \<noteq> []" by auto
  have "set ?vs = (\<Union>a\<in>set x. set (bin_counts hist a n))" by simp
  with py_max_int [OF ne]
  have m: "py_max int_lt ?vs = Inr (Max (\<Union>a\<in>set x. set (bin_counts hist a n)))" by simp
  show ?thesis
    by (simp add: new_Histogram_def hist_loop_all [where hist = hist and n = n and xs = x, OF all] m Let_def BasePlot_init_def
        get_min_max_def Histogram_get_min_max_def)
qed

lemma equal_width_histogram_returns:
  "1 \<le> n \<Longrightarrow> sample_values a = Inr l \<Longrightarrow>
   \<exists>counts edges. equal_width_histogram a n = Inr (counts, edges) \<and> length counts = nat n"
  by (simp add: equal_width_histogram_def Let_def)

theorem Histogram_y_range_witness:
  "\<exists>c. new_Histogram equal_width_histogram [XSeq [1, 2, 2, 3, 9], XSeq [4, 4, 4, 5]] 2
          (Some 1) (Some 1) None None None None = Inr c \<and>
        min_y c = Some (YNum 0) \<and> max_y c = Some (YNum 4)"
proof -
  let ?x = "[XSeq [1, 2, 2, 3, 9], XSeq [4, 4, 4, 5]]"
  have 1: "?x \<noteq> []" and 2: "(1::int) \<le> 2" by simp_all
  have "\<exists>counts edges. equal_width_histogram (XSeq [1, 2, 2, 3, 9]) 2 = Inr (counts, edges) \<and>
      length counts = nat 2"
    by (rule equal_width_histogram_returns) (simp_all add: sample_values_def)
  moreover
  have "\<exists>counts edges. equal_width_histogram (XSeq [4, 4, 4, 5]) 2 = Inr (counts, edges) \<and>
      length counts = nat 2"
    by (rule equal_width_histogram_returns) (simp_all add: sample_values_def)
  ultimately
  have 3: "\<forall>a\<in>set ?x. \<exists>counts edges. equal_width_histogram a 2 = Inr (counts, edges) \<and>
      length counts = nat 2"
    by simp
  have b1: "bin_counts equal_width_histogram (XSeq [1, 2, 2, 3, 9]) 2 = [4, 1]"
    by code_simp
  have b2: "bin_counts equal_width_histogram (XSeq [4, 4, 4, 5]) 2 = [3, 1]"
    by code_simp
  from Histogram_y_range [where hist = equal_width_histogram and x = ?x and n = 2 and dx = "Some 1"
      and dy = "Some 1" and xl = None and yl = None and yd = None and t = None, OF 1 2 3]
  have "\<exists>c. new_Histogram equal_width_histogram ?x 2 (Some 1) (Some 1) None None None None =
          Inr c \<and>
        min_y c = Some (YNum 0) \<and> max_y c = Some (YNum 4) \<and> get_min_max c = ([], Inr c)"
    by (simp add: b1 b2)
  then show ?thesis by blast
qed

end
